theory Spec2Isabelle
  imports Main "HOL-Library.Sublist"
begin

section \<open>The Bluetooth Classic hook: data model\<close>

text \<open>
  The development embeds the hook \<^verbatim>\<open>useBluetoothClassic\<close> (the variant with
  permission gating, \<^verbatim>\<open>src/useBluetoothClassic.ts\<close> lines 1 to 397) and the
  status text of \<^verbatim>\<open>src/App.tsx\<close>.

  JavaScript strings are modelled as \<^typ>\<open>string\<close>; a character stands for one
  UTF-16 code unit below 256, which covers every literal of the source (the accented
  letters of two messages are written by their code).  Calls of \<^verbatim>\<open>console.log\<close>
  and \<^verbatim>\<open>console.error\<close> change nothing the hook exposes and are left out, and so
  are the two effects of the hook (the permission request on mount and the listener for
  incoming data), which no property below is about.
\<close>

text \<open>
  A thrown value is either an instance of \<^verbatim>\<open>Error\<close> with its message or any
  other value; the source tells them apart with \<^verbatim>\<open>err instanceof Error\<close>.
\<close>

datatype js_error = Error string | Thrown string

fun errorMessage :: "js_error \<Rightarrow> string \<Rightarrow> string" where
  "errorMessage (Error m) fallback = m"
| "errorMessage (Thrown v) fallback = fallback"

datatype MessageType = sent | received | system

record Message =
  mtype :: MessageType
  content :: string
  timestamp :: string

text \<open>The fields \<^verbatim>\<open>id\<close>, \<^verbatim>\<open>name\<close> and \<^verbatim>\<open>bonded\<close> of the library's device object.\<close>

record BluetoothDevice =
  device_id :: string
  device_name :: string
  device_bonded :: bool

datatype PermissionStatus = GRANTED | DENIED | NEVER_ASK_AGAIN

text \<open>
  Everything the hook does to the world outside it, in the order it happens: each call
  of the platform with the answer it got (\<open>Inl\<close> a rejected promise, \<open>Inr\<close> a
  resolved one), and each append to the message log.
\<close>

datatype event =
    Request "js_error + PermissionStatus"
  | RequestMultiple "js_error + (string \<times> PermissionStatus) list"
  | GetBondedDevices "js_error + BluetoothDevice list"
  | RequestBluetoothEnabled "js_error + bool"
  | StartDiscovery "js_error + BluetoothDevice list"
  | PairDevice string "js_error + BluetoothDevice"
  | ConnectToDevice string "js_error + BluetoothDevice"
  | IsConnected BluetoothDevice "js_error + bool"
  | Disconnect BluetoothDevice "js_error + bool"
  | Write BluetoothDevice string "js_error + bool"
  | Appended MessageType string

text \<open>
  The platform the hook runs on: \<^verbatim>\<open>Platform\<close>, \<^verbatim>\<open>PermissionsAndroid\<close>,
  \<^verbatim>\<open>RNBluetoothClassic\<close>, the methods of a device object and the clock.  The
  answer to a call may depend on everything that happened before it, so each operation
  takes the history of events so far.  The object returned by
  \<^verbatim>\<open>requestMultiple\<close> is an association list from permission names to statuses.
\<close>

record platform =
  Platform_OS :: string
  Platform_Version :: int
  PA_request :: "event list \<Rightarrow> js_error + PermissionStatus"
  PA_requestMultiple :: "event list \<Rightarrow> js_error + (string \<times> PermissionStatus) list"
  RN_getBondedDevices :: "event list \<Rightarrow> js_error + BluetoothDevice list"
  RN_requestBluetoothEnabled :: "event list \<Rightarrow> js_error + bool"
  RN_startDiscovery :: "event list \<Rightarrow> js_error + BluetoothDevice list"
  RN_pairDevice :: "string \<Rightarrow> event list \<Rightarrow> js_error + BluetoothDevice"
  RN_connectToDevice :: "string \<Rightarrow> event list \<Rightarrow> js_error + BluetoothDevice"
  device_isConnected :: "BluetoothDevice \<Rightarrow> event list \<Rightarrow> js_error + bool"
  device_disconnect :: "BluetoothDevice \<Rightarrow> event list \<Rightarrow> js_error + bool"
  device_write :: "BluetoothDevice \<Rightarrow> string \<Rightarrow> event list \<Rightarrow> js_error + bool"
  Date_now :: "event list \<Rightarrow> string"

text \<open>
  The state variables of the hook (\<^verbatim>\<open>BluetoothState\<close>; \<^verbatim>\<open>isConnected\<close> is
  derived below), together with the history of events.
\<close>

record BluetoothState =
  connectedDevice :: "BluetoothDevice option"
  isScanning :: bool
  isConnecting :: bool
  isPairing :: bool
  messages :: "Message list"
  error :: "string option"
  mp4Device :: "BluetoothDevice option"
  permissionsGranted :: bool
  history :: "event list"

definition isConnected :: "BluetoothState \<Rightarrow> bool" where
  "isConnected s = (connectedDevice s \<noteq> None)"

text \<open>The events a run from \<open>s\<close> to \<open>s'\<close> added to the history.\<close>

definition emitted :: "BluetoothState \<Rightarrow> BluetoothState \<Rightarrow> event list" where
  "emitted s s' = drop (length (history s)) (history s')"

section \<open>The operations of the hook\<close>

text \<open>
  A callback of a React hook reads the state variables of the render that created it
  and writes through the setters.  Each operation below therefore takes the snapshot
  \<open>r\<close> it reads from and the running state \<open>s\<close> it updates; the callback handed
  out by the current render is the operation with \<open>r = s\<close>.  A \<^verbatim>\<open>try\<close> block
  is a function of its own, ending in \<open>_try\<close>, and the operation adds the
  \<^verbatim>\<open>catch\<close> and \<^verbatim>\<open>finally\<close> clauses.
\<close>

definition requestBluetoothPermissions :: "platform \<Rightarrow> BluetoothState \<Rightarrow> bool \<times> BluetoothState" where
  "requestBluetoothPermissions P s =
     (if Platform_OS P \<noteq> ''android'' then (True, s)
      else if Platform_Version P < 31 then
        (let res = PA_request P (history s);
             s1 = s\<lparr>history := history s @ [Request res]\<rparr>
         in case res of
              Inl err \<Rightarrow>
                (False, s1\<lparr>permissionsGranted := False, error := Some ''Error al solicitar permisos''\<rparr>)
            | Inr granted \<Rightarrow>
                (let isGranted = (granted = GRANTED)
                 in (isGranted, s1\<lparr>permissionsGranted := isGranted\<rparr>)))
      else
        (let res = PA_requestMultiple P (history s);
             s1 = s\<lparr>history := history s @ [RequestMultiple res]\<rparr>
         in case res of
              Inl err \<Rightarrow>
                (False, s1\<lparr>permissionsGranted := False, error := Some ''Error al solicitar permisos''\<rparr>)
            | Inr granted \<Rightarrow>
                (let allGranted =
                       (map_of granted ''android.permission.BLUETOOTH_SCAN'' = Some GRANTED \<and>
                        map_of granted ''android.permission.BLUETOOTH_CONNECT'' = Some GRANTED \<and>
                        map_of granted ''android.permission.ACCESS_FINE_LOCATION'' = Some GRANTED);
                     s2 = s1\<lparr>permissionsGranted := allGranted\<rparr>;
                     s3 = (if \<not> allGranted
                           then s2\<lparr>error := Some ''Se requieren permisos de Bluetooth para continuar''\<rparr>
                           else s2)
                 in (allGranted, s3))))"

definition addMessage :: "platform \<Rightarrow> MessageType \<Rightarrow> string \<Rightarrow> BluetoothState \<Rightarrow> BluetoothState" where
  "addMessage P ty c s =
     (let ts = Date_now P (history s)
      in s\<lparr>messages := messages s @ [\<lparr>mtype = ty, content = c, timestamp = ts\<rparr>],
           history := history s @ [Appended ty c]\<rparr>)"

definition clearMessages :: "BluetoothState \<Rightarrow> BluetoothState" where
  "clearMessages s = s\<lparr>messages := []\<rparr>"

definition pairDevice_try :: "platform \<Rightarrow> BluetoothState \<Rightarrow> BluetoothDevice \<Rightarrow> BluetoothState \<Rightarrow> (js_error + BluetoothDevice) \<times> BluetoothState" where
  "pairDevice_try P r device s =
     (case (if \<not> permissionsGranted r then requestBluetoothPermissions P s else (True, s)) of
        (granted, s1) \<Rightarrow>
          if \<not> granted
          then (Inl (Error ''Se requieren permisos de Bluetooth para emparejar''), s1)
          else
            (let s2 = s1\<lparr>isPairing := True\<rparr>;
                 s3 = s2\<lparr>error := None\<rparr>;
                 res = RN_pairDevice P (device_id device) (history s3);
                 s4 = s3\<lparr>history := history s3 @ [PairDevice (device_id device) res]\<rparr>
             in case res of
                  Inl err \<Rightarrow> (Inl err, s4)
                | Inr paired \<Rightarrow>
                    (Inr paired, addMessage P system (''Emparejado con '' @ device_name device) s4)))"

definition pairDevice :: "platform \<Rightarrow> BluetoothState \<Rightarrow> BluetoothDevice \<Rightarrow> BluetoothState \<Rightarrow> (js_error + BluetoothDevice) \<times> BluetoothState" where
  "pairDevice P r device s =
     (case pairDevice_try P r device s of
        (Inl err, s1) \<Rightarrow>
          (Inl err, s1\<lparr>error := Some (errorMessage err ''Error desconocido al emparejar''),
                       isPairing := False\<rparr>)
      | (Inr paired, s1) \<Rightarrow> (Inr paired, s1\<lparr>isPairing := False\<rparr>))"

definition connectToDevice_try :: "platform \<Rightarrow> BluetoothState \<Rightarrow> BluetoothDevice \<Rightarrow> BluetoothState \<Rightarrow> (js_error + BluetoothDevice) \<times> BluetoothState" where
  "connectToDevice_try P r device s =
     (case (if \<not> permissionsGranted r then requestBluetoothPermissions P s else (True, s)) of
        (granted, s1) \<Rightarrow>
          if \<not> granted
          then (Inl (Error ''Se requieren permisos de Bluetooth para conectar''), s1)
          else
            (let s2 = s1\<lparr>isConnecting := True\<rparr>;
                 s3 = s2\<lparr>error := None\<rparr>;
                 res = device_isConnected P device (history s3);
                 s4 = s3\<lparr>history := history s3 @ [IsConnected device res]\<rparr>
             in case res of
                  Inl err \<Rightarrow> (Inl err, s4)
                | Inr True \<Rightarrow>
                    (let s5 = s4\<lparr>connectedDevice := Some device\<rparr>
                     in (Inr device, addMessage P system (''Ya conectado a '' @ device_name device) s5))
                | Inr False \<Rightarrow>
                    (let res2 = RN_connectToDevice P (device_id device) (history s4);
                         s5 = s4\<lparr>history := history s4 @ [ConnectToDevice (device_id device) res2]\<rparr>
                     in case res2 of
                          Inl err \<Rightarrow> (Inl err, s5)
                        | Inr connected \<Rightarrow>
                            (let s6 = s5\<lparr>connectedDevice := Some connected\<rparr>
                             in (Inr connected,
                                 addMessage P system (''Conectado a '' @ device_name device) s6)))))"

definition connectToDevice :: "platform \<Rightarrow> BluetoothState \<Rightarrow> BluetoothDevice \<Rightarrow> BluetoothState \<Rightarrow> (js_error + BluetoothDevice) \<times> BluetoothState" where
  "connectToDevice P r device s =
     (case connectToDevice_try P r device s of
        (Inl err, s1) \<Rightarrow>
          (Inl err, s1\<lparr>error := Some (errorMessage err ''Error al conectar''),
                       isConnecting := False\<rparr>)
      | (Inr connected, s1) \<Rightarrow> (Inr connected, s1\<lparr>isConnecting := False\<rparr>))"

text \<open>
  The predicate of both \<^verbatim>\<open>find\<close> calls:
  \<^verbatim>\<open>device.name && device.name.startsWith('MP4')\<close>; the empty string is falsy.
\<close>

definition isMP4 :: "BluetoothDevice \<Rightarrow> bool" where
  "isMP4 device = (device_name device \<noteq> [] \<and> prefix ''MP4'' (device_name device))"

definition findAndConnectMP4_try :: "platform \<Rightarrow> BluetoothState \<Rightarrow> BluetoothState \<Rightarrow> (js_error + BluetoothDevice) \<times> BluetoothState" where
  "findAndConnectMP4_try P r s =
     (case (if \<not> permissionsGranted r then requestBluetoothPermissions P s else (True, s)) of
        (granted, s1) \<Rightarrow>
          if \<not> granted
          then (Inl (Error ''Se requieren permisos de Bluetooth para buscar dispositivos''), s1)
          else
            (let s2 = s1\<lparr>isScanning := True\<rparr>;
                 s3 = s2\<lparr>error := None\<rparr>;
                 res = RN_getBondedDevices P (history s3);
                 s4 = s3\<lparr>history := history s3 @ [GetBondedDevices res]\<rparr>
             in case res of
                  Inl err \<Rightarrow> (Inl err, s4)
                | Inr paired \<Rightarrow>
                    (case find isMP4 paired of
                       Some mp4 \<Rightarrow>
                         (let s5 = s4\<lparr>mp4Device := Some mp4\<rparr>
                          in case connectToDevice P r mp4 s5 of
                               (Inl err, s6) \<Rightarrow> (Inl err, s6)
                             | (Inr _, s6) \<Rightarrow> (Inr mp4, s6))
                     | None \<Rightarrow>
                         (let res2 = RN_requestBluetoothEnabled P (history s4);
                              s5 = s4\<lparr>history := history s4 @ [RequestBluetoothEnabled res2]\<rparr>
                          in case res2 of
                               Inl err \<Rightarrow> (Inl err, s5)
                             | Inr False \<Rightarrow>
                                 (Inl (Error (''Bluetooth no est'' @ [CHR 0xE1] @ '' habilitado'')), s5)
                             | Inr True \<Rightarrow>
                                 (let s6 = addMessage P system ''Buscando dispositivo MP4...'' s5;
                                      res3 = RN_startDiscovery P (history s6);
                                      s7 = s6\<lparr>history := history s6 @ [StartDiscovery res3]\<rparr>
                                  in case res3 of
                                       Inl err \<Rightarrow> (Inl err, s7)
                                     | Inr discovered \<Rightarrow>
                                         (case find isMP4 discovered of
                                            None \<Rightarrow>
                                              (Inl (Error (''No se encontr'' @ [CHR 0xF3] @ '' ning''
                                                     @ [CHR 0xFA] @ ''n dispositivo MP4'')), s7)
                                          | Some mp4 \<Rightarrow>
                                              (let s8 = s7\<lparr>mp4Device := Some mp4\<rparr>;
                                                   s9 = addMessage P system
                                                          (''Emparejando con '' @ device_name mp4 @ ''...'') s8
                                               in case pairDevice P r mp4 s9 of
                                                    (Inl err, s10) \<Rightarrow> (Inl err, s10)
                                                  | (Inr _, s10) \<Rightarrow>
                                                      (case connectToDevice P r mp4 s10 of
                                                         (Inl err, s11) \<Rightarrow> (Inl err, s11)
                                                       | (Inr _, s11) \<Rightarrow> (Inr mp4, s11)))))))))"

definition findAndConnectMP4 :: "platform \<Rightarrow> BluetoothState \<Rightarrow> BluetoothState \<Rightarrow> (js_error + BluetoothDevice) \<times> BluetoothState" where
  "findAndConnectMP4 P r s =
     (case findAndConnectMP4_try P r s of
        (Inl err, s1) \<Rightarrow>
          (Inl err, s1\<lparr>error := Some (errorMessage err ''Error desconocido al buscar MP4''),
                       isScanning := False\<rparr>)
      | (Inr mp4, s1) \<Rightarrow> (Inr mp4, s1\<lparr>isScanning := False\<rparr>))"

definition disconnect_try :: "platform \<Rightarrow> BluetoothState \<Rightarrow> BluetoothState \<Rightarrow> (js_error + unit) \<times> BluetoothState" where
  "disconnect_try P r s =
     (case connectedDevice r of
        None \<Rightarrow> (Inr (), s)
      | Some d \<Rightarrow>
          (let res = device_disconnect P d (history s);
               s1 = s\<lparr>history := history s @ [Disconnect d res]\<rparr>
           in case res of
                Inl err \<Rightarrow> (Inl err, s1)
              | Inr _ \<Rightarrow>
                  (let s2 = addMessage P system (''Desconectado de '' @ device_name d) s1;
                       s3 = s2\<lparr>connectedDevice := None\<rparr>;
                       s4 = s3\<lparr>messages := []\<rparr>
                   in (Inr (), s4))))"

definition disconnect :: "platform \<Rightarrow> BluetoothState \<Rightarrow> BluetoothState \<Rightarrow> (js_error + unit) \<times> BluetoothState" where
  "disconnect P r s =
     (case disconnect_try P r s of
        (Inl err, s1) \<Rightarrow> (Inr (), s1\<lparr>error := Some (errorMessage err ''Error al desconectar'')\<rparr>)
      | (Inr u, s1) \<Rightarrow> (Inr u, s1))"

definition sendData_try :: "platform \<Rightarrow> BluetoothState \<Rightarrow> string \<Rightarrow> BluetoothState \<Rightarrow> (js_error + bool) \<times> BluetoothState" where
  "sendData_try P r data s =
     (case connectedDevice r of
        None \<Rightarrow> (Inl (Error ''No hay dispositivo conectado''), s)
      | Some d \<Rightarrow>
          (let s1 = s\<lparr>error := None\<rparr>;
               res = device_write P d data (history s1);
               s2 = s1\<lparr>history := history s1 @ [Write d data res]\<rparr>
           in case res of
                Inl err \<Rightarrow> (Inl err, s2)
              | Inr _ \<Rightarrow> (Inr True, addMessage P sent data s2)))"

definition sendData :: "platform \<Rightarrow> BluetoothState \<Rightarrow> string \<Rightarrow> BluetoothState \<Rightarrow> (js_error + bool) \<times> BluetoothState" where
  "sendData P r data s =
     (case sendData_try P r data s of
        (Inl err, s1) \<Rightarrow> (Inr False, s1\<lparr>error := Some (errorMessage err ''Error al enviar datos'')\<rparr>)
      | (Inr b, s1) \<Rightarrow> (Inr b, s1))"

text \<open>The status line of \<^verbatim>\<open>App.tsx\<close>, computed from the state the hook exposes.\<close>

definition getStatusText :: "BluetoothState \<Rightarrow> string" where
  "getStatusText s =
     (if isConnected s then ''Conectado''
      else if isConnecting s then ''Conectando...''
      else if isPairing s then ''Emparejando...''
      else if isScanning s then ''Buscando MP4...''
      else ''Desconectado'')"

section \<open>Observations and a mock platform\<close>

text \<open>
  The two calls of \<^verbatim>\<open>PermissionsAndroid\<close> are not calls of the radio adapter.
\<close>

fun isPermissionRequest :: "event \<Rightarrow> bool" where
  "isPermissionRequest (Request res) = True"
| "isPermissionRequest (RequestMultiple res) = True"
| "isPermissionRequest e = False"

text \<open>The initial values of the \<^verbatim>\<open>useState\<close> calls, with an empty history.\<close>

definition initialState :: BluetoothState where
  "initialState =
     \<lparr>connectedDevice = None, isScanning = False, isConnecting = False, isPairing = False,
      messages = [], error = None, mp4Device = None, permissionsGranted = False,
      history = []\<rparr>"

definition player1 :: BluetoothDevice where
  "player1 = \<lparr>device_id = ''00:11:22:33:44:55'', device_name = ''MP4-Player-1'',
              device_bonded = True\<rparr>"

definition mp4x :: BluetoothDevice where
  "mp4x = \<lparr>device_id = ''66:77:88:99:AA:BB'', device_name = ''MP4-X'', device_bonded = False\<rparr>"

text \<open>
  A platform on which every call succeeds: Android 13, all permissions granted, nothing
  bonded, nothing discovered, no device connected yet.  The concrete runs below change
  single answers of it.
\<close>

definition mock :: platform where
  "mock =
     \<lparr>Platform_OS = ''android'', Platform_Version = 33,
      PA_request = (\<lambda>h. Inr GRANTED),
      PA_requestMultiple = (\<lambda>h. Inr [(''android.permission.BLUETOOTH_SCAN'', GRANTED),
                                     (''android.permission.BLUETOOTH_CONNECT'', GRANTED),
                                     (''android.permission.ACCESS_FINE_LOCATION'', GRANTED)]),
      RN_getBondedDevices = (\<lambda>h. Inr []),
      RN_requestBluetoothEnabled = (\<lambda>h. Inr True),
      RN_startDiscovery = (\<lambda>h. Inr []),
      RN_pairDevice = (\<lambda>i h. Inr (mp4x\<lparr>device_bonded := True\<rparr>)),
      RN_connectToDevice = (\<lambda>i h. Inr player1),
      device_isConnected = (\<lambda>d h. Inr False),
      device_disconnect = (\<lambda>d h. Inr True),
      device_write = (\<lambda>d data h. Inr True),
      Date_now = (\<lambda>h. ''2024-01-01T00:00:00.000Z'')\<rparr>"

text \<open>A state with an active session and a log holding one entry of each kind.\<close>

definition sessionState :: BluetoothState where
  "sessionState =
     initialState\<lparr>connectedDevice := Some player1, permissionsGranted := True,
       messages := [\<lparr>mtype = system, content = ''Conectado a MP4-Player-1'', timestamp = ''t0''\<rparr>,
                    \<lparr>mtype = sent, content = ''PLAY'', timestamp = ''t1''\<rparr>,
                    \<lparr>mtype = received, content = ''OK'', timestamp = ''t2''\<rparr>]\<rparr>"

text \<open>The mock platform with a device whose teardown is rejected.\<close>

definition brokenTeardown :: platform where
  "brokenTeardown = mock\<lparr>device_disconnect := (\<lambda>d h. Inl (Error ''socket closed''))\<rparr>"

text \<open>
  The mock platform answering the request for the three permissions with a partial
  grant, and the mock platform whose devices report that they are connected already.
\<close>

definition partialGrant :: platform where
  "partialGrant =
     mock\<lparr>PA_requestMultiple :=
            (\<lambda>h. Inr [(''android.permission.BLUETOOTH_SCAN'', GRANTED),
                       (''android.permission.BLUETOOTH_CONNECT'', DENIED),
                       (''android.permission.ACCESS_FINE_LOCATION'', GRANTED)])\<rparr>"


text \<open>The initial state once the permissions have been granted.\<close>

definition grantedState :: BluetoothState where
  "grantedState = initialState\<lparr>permissionsGranted := True\<rparr>"

text \<open>The events of a run other than the permission requests, in order.\<close>

definition nonPermission :: "event list \<Rightarrow> event list" where
  "nonPermission es = filter (\<lambda>e. \<not> isPermissionRequest e) es"

text \<open>A device whose name does not start with MP4, and a platform that knows no other.\<close>

definition speaker :: BluetoothDevice where
  "speaker = \<lparr>device_id = ''10:20:30:40:50:60'', device_name = ''JBL Flip'', device_bonded = True\<rparr>"

definition nothingToFind :: platform where
  "nothingToFind = mock\<lparr>RN_getBondedDevices := (\<lambda>h. Inr [speaker]),
                          RN_startDiscovery := (\<lambda>h. Inr [speaker])\<rparr>"









text \<open>
  The state after a failed send on an active session: \<^verbatim>\<open>App.tsx\<close> shows its retry
  button, which calls \<^verbatim>\<open>findAndConnectMP4\<close>, whenever an error is set and no scan,
  connect or pairing is under way.
\<close>

definition retryState :: BluetoothState where
  "retryState = sessionState\<lparr>error := Some ''Error al enviar datos''\<rparr>"









section \<open>The event log\<close>

lemma addMessage_messages:
  "messages (addMessage P ty c s) =
     messages s @ [\<lparr>mtype = ty, content = c, timestamp = Date_now P (history s)\<rparr>]"
  by (simp add: addMessage_def Let_def)

lemma fold_addMessage:
  "map (\<lambda>m. (mtype m, content m)) (messages (fold (\<lambda>(ty, c). addMessage P ty c) xs s))
     = map (\<lambda>m. (mtype m, content m)) (messages s) @ xs"
proof (induction xs arbitrary: s)
  case Nil
  show ?case by simp
next
  case (Cons x xs)
  obtain ty c where x: "x = (ty, c)" by (cases x)
  show ?case by (simp add: x Cons.IH addMessage_messages)
qed

text \<open>
  C9 (as amended).  Appending a sequence of entries to the log, in any state, leaves
  the old entries in place and adds exactly the appended kinds and contents in the
  order of the calls; \<^verbatim>\<open>clearMessages\<close> leaves a log of length zero whatever
  the log held before.
\<close>

theorem event_log_append_order_and_clear:
  "map (\<lambda>m. (mtype m, content m)) (messages (fold (\<lambda>(ty, c). addMessage P ty c) xs s))
     = map (\<lambda>m. (mtype m, content m)) (messages s) @ xs
   \<and> length (messages (clearMessages s)) = 0"
  by (simp add: fold_addMessage clearMessages_def)

text \<open>
  C9 as stated fails: the length before \<^verbatim>\<open>clearMessages\<close> (plus zero) is not the
  length after it once the log holds an entry.
\<close>

theorem clear_length_counterexample:
  "length (messages sessionState) + 0 \<noteq> length (messages (clearMessages sessionState))"
  by (simp add: sessionState_def initialState_def clearMessages_def)

section \<open>Sending\<close>

text \<open>
  C7.  \<^verbatim>\<open>sendData\<close> always resolves to a boolean.  Without a session it
  resolves to false and only the error slot changes; when the write is rejected it
  records the error, resolves to false and appends nothing; when the write succeeds it
  appends exactly one \<open>sent\<close> entry and resolves to true.
\<close>

theorem sendData_never_throws:
  "(connectedDevice r = None \<longrightarrow>
      sendData P r data s = (Inr False, s\<lparr>error := Some ''No hay dispositivo conectado''\<rparr>))
   \<and> (\<forall>d err. connectedDevice r = Some d \<and> device_write P d data (history s) = Inl err \<longrightarrow>
        fst (sendData P r data s) = Inr False
      \<and> error (snd (sendData P r data s)) = Some (errorMessage err ''Error al enviar datos'')
      \<and> messages (snd (sendData P r data s)) = messages s)
   \<and> (\<forall>d b. connectedDevice r = Some d \<and> device_write P d data (history s) = Inr b \<longrightarrow>
        fst (sendData P r data s) = Inr True
      \<and> (\<exists>ts. messages (snd (sendData P r data s)) =
                 messages s @ [\<lparr>mtype = sent, content = data, timestamp = ts\<rparr>]))
   \<and> (\<exists>b. fst (sendData P r data s) = Inr b)"
  by (auto simp: sendData_def sendData_try_def addMessage_def Let_def
      split: option.splits sum.splits)

theorem sendData_never_throws_witness:
  "connectedDevice initialState = None
   \<and> sendData mock initialState ''PLAY'' initialState
       = (Inr False, initialState\<lparr>error := Some ''No hay dispositivo conectado''\<rparr>)
   \<and> connectedDevice sessionState = Some player1
   \<and> device_write mock player1 ''PLAY'' (history sessionState) = Inr True
   \<and> fst (sendData mock sessionState ''PLAY'' sessionState) = Inr True
   \<and> device_write (mock\<lparr>device_write := (\<lambda>d data h. Inl (Error ''broken pipe''))\<rparr>)
        player1 ''PLAY'' (history sessionState) = Inl (Error ''broken pipe'')
   \<and> fst (sendData (mock\<lparr>device_write := (\<lambda>d data h. Inl (Error ''broken pipe''))\<rparr>)
        sessionState ''PLAY'' sessionState) = Inr False"
proof -
  have none: "connectedDevice initialState = None"
    by (simp add: initialState_def)
  have some: "connectedDevice sessionState = Some player1"
    by (simp add: sessionState_def)
  have ok: "device_write mock player1 ''PLAY'' (history sessionState) = Inr True"
    by (simp add: mock_def)
  have bad: "device_write (mock\<lparr>device_write := (\<lambda>d data h. Inl (Error ''broken pipe''))\<rparr>)
      player1 ''PLAY'' (history sessionState) = Inl (Error ''broken pipe'')"
    by simp
  show ?thesis
    using none some ok bad
      sendData_never_throws [of initialState mock "''PLAY''" initialState]
      sendData_never_throws [of sessionState mock "''PLAY''" sessionState]
      sendData_never_throws [of sessionState
        "mock\<lparr>device_write := (\<lambda>d data h. Inl (Error ''broken pipe''))\<rparr>" "''PLAY''" sessionState]
    by blast
qed

section \<open>Disconnecting\<close>

text \<open>
  C6 (as amended).  \<^verbatim>\<open>disconnect\<close> never rejects.  Without a session it changes
  nothing.  With a session it first calls the device's disconnect; when that call
  resolves, the session is cleared and the whole message log is emptied, whatever it
  held.  (What happens when the call is rejected is C10.)
\<close>

theorem disconnect_clears_session_and_log:
  assumes "disconnect P r s = (res, s')"
  shows "res = Inr ()
     \<and> (connectedDevice r = None \<longrightarrow> s' = s)
     \<and> (\<forall>d. connectedDevice r = Some d \<longrightarrow>
            take 1 (emitted s s') = [Disconnect d (device_disconnect P d (history s))])
     \<and> (\<forall>d b. connectedDevice r = Some d \<and> Disconnect d (Inr b) \<in> set (emitted s s') \<longrightarrow>
            connectedDevice s' = None \<and> messages s' = [])"
  using assms
  by (auto simp: disconnect_def disconnect_try_def emitted_def addMessage_def Let_def
      split: option.splits sum.splits)

theorem disconnect_clears_session_and_log_witness:
  "fst (disconnect mock sessionState sessionState) = Inr ()
   \<and> connectedDevice sessionState = Some player1
   \<and> Disconnect player1 (Inr True) \<in> set (emitted sessionState (snd (disconnect mock sessionState sessionState)))
   \<and> connectedDevice (snd (disconnect mock sessionState sessionState)) = None
   \<and> messages (snd (disconnect mock sessionState sessionState)) = []
   \<and> connectedDevice initialState = None
   \<and> snd (disconnect mock initialState initialState) = initialState"
proof -
  have session: "connectedDevice sessionState = Some player1"
    by (simp add: sessionState_def)
  have idle: "connectedDevice initialState = None"
    by (simp add: initialState_def)
  have ev: "Disconnect player1 (Inr True)
      \<in> set (emitted sessionState (snd (disconnect mock sessionState sessionState)))"
    by (simp add: disconnect_def disconnect_try_def Let_def addMessage_def emitted_def
        mock_def sessionState_def initialState_def)
  show ?thesis
    using session idle ev
      disconnect_clears_session_and_log [of mock sessionState sessionState
        "fst (disconnect mock sessionState sessionState)"
        "snd (disconnect mock sessionState sessionState)"]
      disconnect_clears_session_and_log [of mock initialState initialState
        "fst (disconnect mock initialState initialState)"
        "snd (disconnect mock initialState initialState)"]
    by (simp (no_asm_simp))
qed

text \<open>
  C6 as stated fails: with an active session and a log of three entries, a teardown
  that is rejected leaves the session set and the log as it was.
\<close>

theorem disconnect_session_counterexample:
  "connectedDevice sessionState \<noteq> None
   \<and> connectedDevice (snd (disconnect brokenTeardown sessionState sessionState)) \<noteq> None
   \<and> messages (snd (disconnect brokenTeardown sessionState sessionState)) \<noteq> []"
  by (simp add: disconnect_def disconnect_try_def Let_def brokenTeardown_def mock_def
      sessionState_def initialState_def)

text \<open>
  C10.  When the device's disconnect is rejected, \<^verbatim>\<open>disconnect\<close> records the
  message of the error in the error slot and changes nothing else of the hook's state:
  the session stays set and the message log keeps its entries.
\<close>

theorem disconnect_failure_keeps_session:
  assumes "connectedDevice r = Some d"
    and "device_disconnect P d (history s) = Inl err"
  shows "disconnect P r s =
           (Inr (), s\<lparr>history := history s @ [Disconnect d (Inl err)],
                       error := Some (errorMessage err ''Error al desconectar'')\<rparr>)
       \<and> connectedDevice (snd (disconnect P r s)) = connectedDevice s
       \<and> messages (snd (disconnect P r s)) = messages s
       \<and> error (snd (disconnect P r s)) = Some (errorMessage err ''Error al desconectar'')"
  using assms by (simp add: disconnect_def disconnect_try_def Let_def)

theorem disconnect_failure_keeps_session_witness:
  "connectedDevice sessionState = Some player1
   \<and> device_disconnect brokenTeardown player1 (history sessionState) = Inl (Error ''socket closed'')
   \<and> connectedDevice (snd (disconnect brokenTeardown sessionState sessionState)) = Some player1
   \<and> length (messages (snd (disconnect brokenTeardown sessionState sessionState))) = 3
   \<and> error (snd (disconnect brokenTeardown sessionState sessionState)) = Some ''socket closed''"
proof -
  have session: "connectedDevice sessionState = Some player1"
    by (simp add: sessionState_def)
  have rejected: "device_disconnect brokenTeardown player1 (history sessionState)
      = Inl (Error ''socket closed'')"
    by (simp add: brokenTeardown_def)
  have len: "length (messages sessionState) = 3"
    by (simp add: sessionState_def)
  show ?thesis
    using disconnect_failure_keeps_session [OF session rejected] session rejected len
    by simp
qed

section \<open>The permission gate\<close>

lemma emitted_append [simp]: "history s' = history s @ es \<Longrightarrow> emitted s s' = es"
  by (simp add: emitted_def)

lemma permission_events_only:
  "\<forall>x\<in>set pe. isPermissionRequest x \<Longrightarrow> \<not> isPermissionRequest e \<Longrightarrow> e \<notin> set pe"
  by blast

lemma nonPermission_Nil [simp]: "nonPermission [] = []"
  by (simp add: nonPermission_def)

lemma nonPermission_Cons [simp]:
  "nonPermission (e # es) = (if isPermissionRequest e then nonPermission es else e # nonPermission es)"
  by (simp add: nonPermission_def)

lemma nonPermission_append [simp]:
  "nonPermission (xs @ ys) = nonPermission xs @ nonPermission ys"
  by (simp add: nonPermission_def)

lemma nonPermission_quiet: "\<forall>x\<in>set pe. isPermissionRequest x \<Longrightarrow> nonPermission pe = []"
  by (simp add: nonPermission_def)

lemma in_nonPermission:
  "\<not> isPermissionRequest e \<Longrightarrow> e \<in> set es \<longleftrightarrow> e \<in> set (nonPermission es)"
  by (simp add: nonPermission_def)

text \<open>
  Asking for permissions touches the permission flag, the error slot and the history
  only, and adds nothing but permission requests to the history.
\<close>

lemma rbp_frame:
  assumes "requestBluetoothPermissions P s = (g, s1)"
  shows "connectedDevice s1 = connectedDevice s \<and> isScanning s1 = isScanning s
       \<and> isConnecting s1 = isConnecting s \<and> isPairing s1 = isPairing s
       \<and> messages s1 = messages s \<and> mp4Device s1 = mp4Device s
       \<and> (\<exists>pe. history s1 = history s @ pe \<and> (\<forall>x\<in>set pe. isPermissionRequest x))"
  using assms
  by (auto simp: requestBluetoothPermissions_def Let_def split: if_splits sum.splits)

lemma gate_frame:
  assumes "(if \<not> pg then requestBluetoothPermissions P s else (True, s)) = (g, s1)"
  shows "connectedDevice s1 = connectedDevice s \<and> isScanning s1 = isScanning s
       \<and> isConnecting s1 = isConnecting s \<and> isPairing s1 = isPairing s
       \<and> messages s1 = messages s \<and> mp4Device s1 = mp4Device s
       \<and> (\<exists>pe. history s1 = history s @ pe \<and> (\<forall>x\<in>set pe. isPermissionRequest x))"
proof (cases pg)
  case True
  with assms have "s1 = s" by simp
  then show ?thesis by simp
next
  case False
  with assms have "requestBluetoothPermissions P s = (g, s1)" by simp
  then show ?thesis by (rule rbp_frame)
qed

lemma rbp_partial:
  assumes "Platform_OS P = ''android''" and "31 \<le> Platform_Version P"
    and "PA_requestMultiple P (history s) = Inr granted"
    and "\<not> (map_of granted ''android.permission.BLUETOOTH_SCAN'' = Some GRANTED
           \<and> map_of granted ''android.permission.BLUETOOTH_CONNECT'' = Some GRANTED
           \<and> map_of granted ''android.permission.ACCESS_FINE_LOCATION'' = Some GRANTED)"
  shows "requestBluetoothPermissions P s =
           (False, s\<lparr>history := history s @ [RequestMultiple (Inr granted)],
                     permissionsGranted := False,
                     error := Some ''Se requieren permisos de Bluetooth para continuar''\<rparr>)"
  using assms by (simp add: requestBluetoothPermissions_def Let_def)

text \<open>
  C4.  On Android with API level 31 or more, when the answer to the request for the
  three permissions does not grant all of them, \<^verbatim>\<open>requestBluetoothPermissions\<close>
  resolves to false and leaves the flag false; and each gated operation called with the
  flag false (it asks again and gets that answer) is rejected with its permission error
  after the permission request alone: no call of the adapter is made.
\<close>

theorem partial_grant_denies_gated_operations:
  assumes "Platform_OS P = ''android''" and "31 \<le> Platform_Version P"
    and "PA_requestMultiple P (history s) = Inr granted"
    and "\<not> (map_of granted ''android.permission.BLUETOOTH_SCAN'' = Some GRANTED
           \<and> map_of granted ''android.permission.BLUETOOTH_CONNECT'' = Some GRANTED
           \<and> map_of granted ''android.permission.ACCESS_FINE_LOCATION'' = Some GRANTED)"
    and "\<not> permissionsGranted r"
  shows "fst (requestBluetoothPermissions P s) = False
     \<and> permissionsGranted (snd (requestBluetoothPermissions P s)) = False
     \<and> fst (pairDevice P r device s) = Inl (Error ''Se requieren permisos de Bluetooth para emparejar'')
     \<and> emitted s (snd (pairDevice P r device s)) = [RequestMultiple (Inr granted)]
     \<and> fst (connectToDevice P r device s) = Inl (Error ''Se requieren permisos de Bluetooth para conectar'')
     \<and> emitted s (snd (connectToDevice P r device s)) = [RequestMultiple (Inr granted)]
     \<and> fst (findAndConnectMP4 P r s)
          = Inl (Error ''Se requieren permisos de Bluetooth para buscar dispositivos'')
     \<and> emitted s (snd (findAndConnectMP4 P r s)) = [RequestMultiple (Inr granted)]"
proof -
  note denied = rbp_partial [OF assms(1-4)]
  have "fst (requestBluetoothPermissions P s) = False"
    and "permissionsGranted (snd (requestBluetoothPermissions P s)) = False"
    by (simp_all add: denied)
  moreover have "fst (pairDevice P r device s)
        = Inl (Error ''Se requieren permisos de Bluetooth para emparejar'')"
    and "emitted s (snd (pairDevice P r device s)) = [RequestMultiple (Inr granted)]"
    using assms(5) by (simp_all add: pairDevice_def pairDevice_try_def denied)
  moreover have "fst (connectToDevice P r device s)
        = Inl (Error ''Se requieren permisos de Bluetooth para conectar'')"
    and "emitted s (snd (connectToDevice P r device s)) = [RequestMultiple (Inr granted)]"
    using assms(5) by (simp_all add: connectToDevice_def connectToDevice_try_def denied)
  moreover have "fst (findAndConnectMP4 P r s)
        = Inl (Error ''Se requieren permisos de Bluetooth para buscar dispositivos'')"
    and "emitted s (snd (findAndConnectMP4 P r s)) = [RequestMultiple (Inr granted)]"
    using assms(5) by (simp_all add: findAndConnectMP4_def findAndConnectMP4_try_def denied)
  ultimately show ?thesis by simp
qed

theorem partial_grant_denies_gated_operations_witness:
  "Platform_OS partialGrant = ''android'' \<and> 31 \<le> Platform_Version partialGrant
   \<and> \<not> permissionsGranted initialState
   \<and> fst (requestBluetoothPermissions partialGrant initialState) = False
   \<and> fst (pairDevice partialGrant initialState mp4x initialState)
        = Inl (Error ''Se requieren permisos de Bluetooth para emparejar'')
   \<and> fst (connectToDevice partialGrant initialState player1 initialState)
        = Inl (Error ''Se requieren permisos de Bluetooth para conectar'')
   \<and> fst (findAndConnectMP4 partialGrant initialState initialState)
        = Inl (Error ''Se requieren permisos de Bluetooth para buscar dispositivos'')
   \<and> emitted initialState (snd (findAndConnectMP4 partialGrant initialState initialState))
        = [RequestMultiple (Inr [(''android.permission.BLUETOOTH_SCAN'', GRANTED),
                                 (''android.permission.BLUETOOTH_CONNECT'', DENIED),
                                 (''android.permission.ACCESS_FINE_LOCATION'', GRANTED)])]"
proof -
  let ?granted = "[(''android.permission.BLUETOOTH_SCAN'', GRANTED),
                   (''android.permission.BLUETOOTH_CONNECT'', DENIED),
                   (''android.permission.ACCESS_FINE_LOCATION'', GRANTED)]"
  have os: "Platform_OS partialGrant = ''android''"
    and api: "31 \<le> Platform_Version partialGrant"
    and answer: "PA_requestMultiple partialGrant (history initialState) = Inr ?granted"
    by (simp_all add: partialGrant_def mock_def)
  have partial: "\<not> (map_of ?granted ''android.permission.BLUETOOTH_SCAN'' = Some GRANTED
           \<and> map_of ?granted ''android.permission.BLUETOOTH_CONNECT'' = Some GRANTED
           \<and> map_of ?granted ''android.permission.ACCESS_FINE_LOCATION'' = Some GRANTED)"
    by simp
  have flag: "\<not> permissionsGranted initialState"
    by (simp add: initialState_def)
  show ?thesis
    using os api flag
      partial_grant_denies_gated_operations [OF os api answer partial flag, of mp4x]
      partial_grant_denies_gated_operations [OF os api answer partial flag, of player1]
    by (simp (no_asm_simp))
qed

section \<open>Connecting and pairing\<close>

text \<open>
  Every run of \<^verbatim>\<open>connectToDevice\<close> takes one of five paths: refused by the
  permission gate, the query of the device rejected, the device connected already, the
  connect rejected, the connect resolved.  \<open>pe\<close> holds the permission requests of the
  gate.
\<close>

lemma connectToDevice_outcomes:
  assumes "connectToDevice P r d s = (res, s')"
  shows "\<exists>pe. (\<forall>x\<in>set pe. isPermissionRequest x)
     \<and> isScanning s' = isScanning s \<and> isPairing s' = isPairing s
     \<and> mp4Device s' = mp4Device s \<and> isConnecting s' = False
     \<and> ((res = Inl (Error ''Se requieren permisos de Bluetooth para conectar'')
          \<and> history s' = history s @ pe \<and> messages s' = messages s
          \<and> connectedDevice s' = connectedDevice s
          \<and> \<not> permissionsGranted r \<and> \<not> fst (requestBluetoothPermissions P s))
       \<or> (\<exists>err. res = Inl err
          \<and> history s' = history s @ pe @ [IsConnected d (Inl err)]
          \<and> messages s' = messages s \<and> connectedDevice s' = connectedDevice s
          \<and> device_isConnected P d (history s @ pe) = Inl err)
       \<or> (res = Inr d
          \<and> history s' = history s @ pe @ [IsConnected d (Inr True),
                Appended system (''Ya conectado a '' @ device_name d)]
          \<and> (\<exists>ts. messages s' = messages s @
                [\<lparr>mtype = system, content = ''Ya conectado a '' @ device_name d, timestamp = ts\<rparr>])
          \<and> connectedDevice s' = Some d
          \<and> device_isConnected P d (history s @ pe) = Inr True)
       \<or> (\<exists>err. res = Inl err
          \<and> history s' = history s @ pe @ [IsConnected d (Inr False),
                ConnectToDevice (device_id d) (Inl err)]
          \<and> messages s' = messages s \<and> connectedDevice s' = connectedDevice s
          \<and> device_isConnected P d (history s @ pe) = Inr False
          \<and> RN_connectToDevice P (device_id d) (history s @ pe @ [IsConnected d (Inr False)])
                = Inl err)
       \<or> (\<exists>c. res = Inr c
          \<and> history s' = history s @ pe @ [IsConnected d (Inr False),
                ConnectToDevice (device_id d) (Inr c),
                Appended system (''Conectado a '' @ device_name d)]
          \<and> (\<exists>ts. messages s' = messages s @
                [\<lparr>mtype = system, content = ''Conectado a '' @ device_name d, timestamp = ts\<rparr>])
          \<and> connectedDevice s' = Some c
          \<and> device_isConnected P d (history s @ pe) = Inr False
          \<and> RN_connectToDevice P (device_id d) (history s @ pe @ [IsConnected d (Inr False)])
                = Inr c))"
proof -
  obtain g s1 where gate:
    "(if \<not> permissionsGranted r then requestBluetoothPermissions P s else (True, s)) = (g, s1)"
    by fastforce
  from gate_frame [OF gate] obtain pe where
    fr: "connectedDevice s1 = connectedDevice s" "isScanning s1 = isScanning s"
        "isConnecting s1 = isConnecting s" "isPairing s1 = isPairing s"
        "messages s1 = messages s" "mp4Device s1 = mp4Device s"
        "history s1 = history s @ pe" "\<forall>x\<in>set pe. isPermissionRequest x"
    by blast
  have rs: "res = fst (connectToDevice P r d s)" "s' = snd (connectToDevice P r d s)"
    using assms by simp_all
  show ?thesis
  proof (cases g)
    case False
    with gate fr show ?thesis unfolding rs
      by (intro exI [of _ pe])
        (simp add: connectToDevice_def connectToDevice_try_def split: if_splits)
  next
    case True
    note g = this
    show ?thesis
    proof (cases "device_isConnected P d (history s1)")
      case (Inl err)
      with gate fr g show ?thesis unfolding rs
        by (intro exI [of _ pe]) (simp add: connectToDevice_def connectToDevice_try_def Let_def)
    next
      case (Inr b)
      note b = this
      show ?thesis
      proof (cases b)
        case True
        with gate fr g b show ?thesis unfolding rs
          by (intro exI [of _ pe])
            (simp add: connectToDevice_def connectToDevice_try_def Let_def addMessage_def)
      next
        case False
        note nb = this
        show ?thesis
        proof (cases "RN_connectToDevice P (device_id d) (history s1 @ [IsConnected d (Inr False)])")
          case (Inl err)
          with gate fr g b nb show ?thesis unfolding rs
            by (intro exI [of _ pe])
              (simp add: connectToDevice_def connectToDevice_try_def Let_def)
        next
          case (Inr c)
          with gate fr g b nb show ?thesis unfolding rs
            by (intro exI [of _ pe])
              (simp add: connectToDevice_def connectToDevice_try_def Let_def addMessage_def)
        qed
      qed
    qed
  qed
qed

lemma connectToDevice_frame:
  assumes "connectToDevice P r d s = (res, s')"
  shows "isScanning s' = isScanning s \<and> isPairing s' = isPairing s
       \<and> mp4Device s' = mp4Device s \<and> isConnecting s' = False"
  using connectToDevice_outcomes [OF assms] by blast

lemma connectToDevice_cases [consumes 1, case_names denied query_rejected already rejected connected]:
  assumes "connectToDevice P r d s = (res, s')"
  obtains
    (denied) pe where "\<forall>x\<in>set pe. isPermissionRequest x"
      "res = Inl (Error ''Se requieren permisos de Bluetooth para conectar'')"
      "history s' = history s @ pe" "messages s' = messages s"
      "connectedDevice s' = connectedDevice s"
      "\<not> permissionsGranted r" "\<not> fst (requestBluetoothPermissions P s)"
  | (query_rejected) pe err where "\<forall>x\<in>set pe. isPermissionRequest x"
      "res = Inl err" "history s' = history s @ pe @ [IsConnected d (Inl err)]"
      "messages s' = messages s" "connectedDevice s' = connectedDevice s"
      "device_isConnected P d (history s @ pe) = Inl err"
  | (already) pe ts where "\<forall>x\<in>set pe. isPermissionRequest x"
      "res = Inr d"
      "history s' = history s @ pe @ [IsConnected d (Inr True),
         Appended system (''Ya conectado a '' @ device_name d)]"
      "messages s' = messages s @
         [\<lparr>mtype = system, content = ''Ya conectado a '' @ device_name d, timestamp = ts\<rparr>]"
      "connectedDevice s' = Some d"
      "device_isConnected P d (history s @ pe) = Inr True"
  | (rejected) pe err where "\<forall>x\<in>set pe. isPermissionRequest x"
      "res = Inl err"
      "history s' = history s @ pe @ [IsConnected d (Inr False),
         ConnectToDevice (device_id d) (Inl err)]"
      "messages s' = messages s" "connectedDevice s' = connectedDevice s"
      "device_isConnected P d (history s @ pe) = Inr False"
      "RN_connectToDevice P (device_id d) (history s @ pe @ [IsConnected d (Inr False)]) = Inl err"
  | (connected) pe c ts where "\<forall>x\<in>set pe. isPermissionRequest x"
      "res = Inr c"
      "history s' = history s @ pe @ [IsConnected d (Inr False),
         ConnectToDevice (device_id d) (Inr c),
         Appended system (''Conectado a '' @ device_name d)]"
      "messages s' = messages s @
         [\<lparr>mtype = system, content = ''Conectado a '' @ device_name d, timestamp = ts\<rparr>]"
      "connectedDevice s' = Some c"
      "device_isConnected P d (history s @ pe) = Inr False"
      "RN_connectToDevice P (device_id d) (history s @ pe @ [IsConnected d (Inr False)]) = Inr c"
  using connectToDevice_outcomes [OF assms]
  by (elim exE conjE disjE) blast+

text \<open>Likewise \<^verbatim>\<open>pairDevice\<close>: refused by the gate, rejected, or paired.\<close>

lemma pairDevice_outcomes:
  assumes "pairDevice P r d s = (res, s')"
  shows "\<exists>pe. (\<forall>x\<in>set pe. isPermissionRequest x)
     \<and> isScanning s' = isScanning s \<and> isConnecting s' = isConnecting s
     \<and> mp4Device s' = mp4Device s \<and> connectedDevice s' = connectedDevice s
     \<and> isPairing s' = False
     \<and> ((res = Inl (Error ''Se requieren permisos de Bluetooth para emparejar'')
          \<and> history s' = history s @ pe \<and> messages s' = messages s
          \<and> \<not> permissionsGranted r \<and> \<not> fst (requestBluetoothPermissions P s))
       \<or> (\<exists>err. res = Inl err
          \<and> history s' = history s @ pe @ [PairDevice (device_id d) (Inl err)]
          \<and> messages s' = messages s
          \<and> RN_pairDevice P (device_id d) (history s @ pe) = Inl err)
       \<or> (\<exists>p. res = Inr p
          \<and> history s' = history s @ pe @ [PairDevice (device_id d) (Inr p),
                Appended system (''Emparejado con '' @ device_name d)]
          \<and> (\<exists>ts. messages s' = messages s @
                [\<lparr>mtype = system, content = ''Emparejado con '' @ device_name d, timestamp = ts\<rparr>])
          \<and> RN_pairDevice P (device_id d) (history s @ pe) = Inr p))"
proof -
  obtain g s1 where gate:
    "(if \<not> permissionsGranted r then requestBluetoothPermissions P s else (True, s)) = (g, s1)"
    by fastforce
  from gate_frame [OF gate] obtain pe where
    fr: "connectedDevice s1 = connectedDevice s" "isScanning s1 = isScanning s"
        "isConnecting s1 = isConnecting s" "isPairing s1 = isPairing s"
        "messages s1 = messages s" "mp4Device s1 = mp4Device s"
        "history s1 = history s @ pe" "\<forall>x\<in>set pe. isPermissionRequest x"
    by blast
  have rs: "res = fst (pairDevice P r d s)" "s' = snd (pairDevice P r d s)"
    using assms by simp_all
  show ?thesis
  proof (cases g)
    case False
    with gate fr show ?thesis unfolding rs
      by (intro exI [of _ pe]) (simp add: pairDevice_def pairDevice_try_def split: if_splits)
  next
    case True
    note g = this
    show ?thesis
    proof (cases "RN_pairDevice P (device_id d) (history s1)")
      case (Inl err)
      with gate fr g show ?thesis unfolding rs
        by (intro exI [of _ pe]) (simp add: pairDevice_def pairDevice_try_def Let_def)
    next
      case (Inr p)
      with gate fr g show ?thesis unfolding rs
        by (intro exI [of _ pe])
          (simp add: pairDevice_def pairDevice_try_def Let_def addMessage_def)
    qed
  qed
qed

lemma pairDevice_frame:
  assumes "pairDevice P r d s = (res, s')"
  shows "isScanning s' = isScanning s \<and> isConnecting s' = isConnecting s
       \<and> mp4Device s' = mp4Device s \<and> connectedDevice s' = connectedDevice s
       \<and> isPairing s' = False"
  using pairDevice_outcomes [OF assms] by blast

lemma pairDevice_cases [consumes 1, case_names denied rejected paired]:
  assumes "pairDevice P r d s = (res, s')"
  obtains
    (denied) pe where "\<forall>x\<in>set pe. isPermissionRequest x"
      "res = Inl (Error ''Se requieren permisos de Bluetooth para emparejar'')"
      "history s' = history s @ pe" "messages s' = messages s"
      "\<not> permissionsGranted r" "\<not> fst (requestBluetoothPermissions P s)"
  | (rejected) pe err where "\<forall>x\<in>set pe. isPermissionRequest x"
      "res = Inl err" "history s' = history s @ pe @ [PairDevice (device_id d) (Inl err)]"
      "messages s' = messages s"
      "RN_pairDevice P (device_id d) (history s @ pe) = Inl err"
  | (paired) pe p ts where "\<forall>x\<in>set pe. isPermissionRequest x"
      "res = Inr p"
      "history s' = history s @ pe @ [PairDevice (device_id d) (Inr p),
         Appended system (''Emparejado con '' @ device_name d)]"
      "messages s' = messages s @
         [\<lparr>mtype = system, content = ''Emparejado con '' @ device_name d, timestamp = ts\<rparr>]"
      "RN_pairDevice P (device_id d) (history s @ pe) = Inr p"
  using pairDevice_outcomes [OF assms]
  by (elim exE conjE disjE) blast+





section \<open>Finding and connecting\<close>

text \<open>
  The structure of a run of \<^verbatim>\<open>findAndConnectMP4\<close>, with the runs of
  \<^verbatim>\<open>connectToDevice\<close> and \<^verbatim>\<open>pairDevice\<close> inside it left as they are.
\<close>

lemma findAndConnectMP4_cases [consumes 1, case_names denied listing_rejected bonded
    enable_rejected disabled discovery_rejected not_found pairing_failed paired]:
  assumes run: "findAndConnectMP4 P r s = (res, s')"
  obtains
    (denied) pe where "\<forall>x\<in>set pe. isPermissionRequest x"
      "res = Inl (Error ''Se requieren permisos de Bluetooth para buscar dispositivos'')"
      "history s' = history s @ pe" "messages s' = messages s"
      "connectedDevice s' = connectedDevice s" "mp4Device s' = mp4Device s"
      "isConnecting s' = isConnecting s" "isPairing s' = isPairing s"
      "\<not> permissionsGranted r"
      "\<not> fst (requestBluetoothPermissions P s)"
  | (listing_rejected) pe err where "\<forall>x\<in>set pe. isPermissionRequest x"
      "res = Inl err"
      "history s' = history s @ pe @ [GetBondedDevices (Inl err)]" "messages s' = messages s"
      "connectedDevice s' = connectedDevice s" "mp4Device s' = mp4Device s"
      "isConnecting s' = isConnecting s" "isPairing s' = isPairing s"
      "RN_getBondedDevices P (history s @ pe) = Inl err"
  | (bonded) pe paired mp4 s5 cres s6 where "\<forall>x\<in>set pe. isPermissionRequest x"
      "find isMP4 paired = Some mp4"
      "history s5 = history s @ pe @ [GetBondedDevices (Inr paired)]"
      "messages s5 = messages s" "connectedDevice s5 = connectedDevice s"
      "mp4Device s5 = Some mp4" "isPairing s5 = isPairing s"
      "connectToDevice P r mp4 s5 = (cres, s6)"
      "res = (case cres of Inl err \<Rightarrow> Inl err | Inr c \<Rightarrow> Inr mp4)"
      "history s' = history s6" "messages s' = messages s6"
      "connectedDevice s' = connectedDevice s6" "mp4Device s' = mp4Device s6"
      "isConnecting s' = isConnecting s6" "isPairing s' = isPairing s6"
      "RN_getBondedDevices P (history s @ pe) = Inr paired"
  | (enable_rejected) pe paired err where "\<forall>x\<in>set pe. isPermissionRequest x"
      "find isMP4 paired = None" "res = Inl err"
      "history s' = history s @ pe @ [GetBondedDevices (Inr paired),
         RequestBluetoothEnabled (Inl err)]"
      "messages s' = messages s"
      "connectedDevice s' = connectedDevice s" "mp4Device s' = mp4Device s"
      "isConnecting s' = isConnecting s" "isPairing s' = isPairing s"
      "RN_getBondedDevices P (history s @ pe) = Inr paired"
      "RN_requestBluetoothEnabled P (history s @ pe @ [GetBondedDevices (Inr paired)]) = Inl err"
  | (disabled) pe paired where "\<forall>x\<in>set pe. isPermissionRequest x"
      "find isMP4 paired = None"
      "res = Inl (Error (''Bluetooth no est'' @ [CHR 0xE1] @ '' habilitado''))"
      "history s' = history s @ pe @ [GetBondedDevices (Inr paired),
         RequestBluetoothEnabled (Inr False)]"
      "messages s' = messages s"
      "connectedDevice s' = connectedDevice s" "mp4Device s' = mp4Device s"
      "isConnecting s' = isConnecting s" "isPairing s' = isPairing s"
      "RN_getBondedDevices P (history s @ pe) = Inr paired"
      "RN_requestBluetoothEnabled P (history s @ pe @ [GetBondedDevices (Inr paired)]) = Inr False"
  | (discovery_rejected) pe paired err ts where "\<forall>x\<in>set pe. isPermissionRequest x"
      "find isMP4 paired = None" "res = Inl err"
      "history s' = history s @ pe @ [GetBondedDevices (Inr paired),
         RequestBluetoothEnabled (Inr True), Appended system ''Buscando dispositivo MP4...'',
         StartDiscovery (Inl err)]"
      "messages s' = messages s @
         [\<lparr>mtype = system, content = ''Buscando dispositivo MP4...'', timestamp = ts\<rparr>]"
      "connectedDevice s' = connectedDevice s" "mp4Device s' = mp4Device s"
      "isConnecting s' = isConnecting s" "isPairing s' = isPairing s"
      "RN_getBondedDevices P (history s @ pe) = Inr paired"
      "RN_requestBluetoothEnabled P (history s @ pe @ [GetBondedDevices (Inr paired)]) = Inr True"
      "RN_startDiscovery P (history s @ pe @ [GetBondedDevices (Inr paired),
         RequestBluetoothEnabled (Inr True), Appended system ''Buscando dispositivo MP4...''])
         = Inl err"
  | (not_found) pe paired discovered ts where "\<forall>x\<in>set pe. isPermissionRequest x"
      "find isMP4 paired = None" "find isMP4 discovered = None"
      "res = Inl (Error (''No se encontr'' @ [CHR 0xF3] @ '' ning'' @ [CHR 0xFA]
                 @ ''n dispositivo MP4''))"
      "history s' = history s @ pe @ [GetBondedDevices (Inr paired),
         RequestBluetoothEnabled (Inr True), Appended system ''Buscando dispositivo MP4...'',
         StartDiscovery (Inr discovered)]"
      "messages s' = messages s @
         [\<lparr>mtype = system, content = ''Buscando dispositivo MP4...'', timestamp = ts\<rparr>]"
      "connectedDevice s' = connectedDevice s" "mp4Device s' = mp4Device s"
      "isConnecting s' = isConnecting s" "isPairing s' = isPairing s"
      "RN_getBondedDevices P (history s @ pe) = Inr paired"
      "RN_requestBluetoothEnabled P (history s @ pe @ [GetBondedDevices (Inr paired)]) = Inr True"
      "RN_startDiscovery P (history s @ pe @ [GetBondedDevices (Inr paired),
         RequestBluetoothEnabled (Inr True), Appended system ''Buscando dispositivo MP4...''])
         = Inr discovered"
  | (pairing_failed) pe paired discovered mp4 ts ts' s9 err s10
      where "\<forall>x\<in>set pe. isPermissionRequest x"
      "find isMP4 paired = None" "find isMP4 discovered = Some mp4"
      "history s9 = history s @ pe @ [GetBondedDevices (Inr paired),
         RequestBluetoothEnabled (Inr True), Appended system ''Buscando dispositivo MP4...'',
         StartDiscovery (Inr discovered),
         Appended system (''Emparejando con '' @ device_name mp4 @ ''...'')]"
      "messages s9 = messages s @
         [\<lparr>mtype = system, content = ''Buscando dispositivo MP4...'', timestamp = ts\<rparr>,
          \<lparr>mtype = system, content = ''Emparejando con '' @ device_name mp4 @ ''...'',
            timestamp = ts'\<rparr>]"
      "connectedDevice s9 = connectedDevice s" "mp4Device s9 = Some mp4"
      "isConnecting s9 = isConnecting s"
      "pairDevice P r mp4 s9 = (Inl err, s10)"
      "res = Inl err"
      "history s' = history s10" "messages s' = messages s10"
      "connectedDevice s' = connectedDevice s10" "mp4Device s' = mp4Device s10"
      "isConnecting s' = isConnecting s10" "isPairing s' = isPairing s10"
      "RN_getBondedDevices P (history s @ pe) = Inr paired"
      "RN_requestBluetoothEnabled P (history s @ pe @ [GetBondedDevices (Inr paired)]) = Inr True"
      "RN_startDiscovery P (history s @ pe @ [GetBondedDevices (Inr paired),
         RequestBluetoothEnabled (Inr True), Appended system ''Buscando dispositivo MP4...''])
         = Inr discovered"
  | (paired) pe paired discovered mp4 ts ts' s9 p s10 cres s11
      where "\<forall>x\<in>set pe. isPermissionRequest x"
      "find isMP4 paired = None" "find isMP4 discovered = Some mp4"
      "history s9 = history s @ pe @ [GetBondedDevices (Inr paired),
         RequestBluetoothEnabled (Inr True), Appended system ''Buscando dispositivo MP4...'',
         StartDiscovery (Inr discovered),
         Appended system (''Emparejando con '' @ device_name mp4 @ ''...'')]"
      "messages s9 = messages s @
         [\<lparr>mtype = system, content = ''Buscando dispositivo MP4...'', timestamp = ts\<rparr>,
          \<lparr>mtype = system, content = ''Emparejando con '' @ device_name mp4 @ ''...'',
            timestamp = ts'\<rparr>]"
      "connectedDevice s9 = connectedDevice s" "mp4Device s9 = Some mp4"
      "isConnecting s9 = isConnecting s"
      "pairDevice P r mp4 s9 = (Inr p, s10)"
      "connectToDevice P r mp4 s10 = (cres, s11)"
      "res = (case cres of Inl err \<Rightarrow> Inl err | Inr c \<Rightarrow> Inr mp4)"
      "history s' = history s11" "messages s' = messages s11"
      "connectedDevice s' = connectedDevice s11" "mp4Device s' = mp4Device s11"
      "isConnecting s' = isConnecting s11" "isPairing s' = isPairing s11"
      "RN_getBondedDevices P (history s @ pe) = Inr paired"
      "RN_requestBluetoothEnabled P (history s @ pe @ [GetBondedDevices (Inr paired)]) = Inr True"
      "RN_startDiscovery P (history s @ pe @ [GetBondedDevices (Inr paired),
         RequestBluetoothEnabled (Inr True), Appended system ''Buscando dispositivo MP4...''])
         = Inr discovered"
proof -
  obtain g s1 where gate:
    "(if \<not> permissionsGranted r then requestBluetoothPermissions P s else (True, s)) = (g, s1)"
    by fastforce
  from gate_frame [OF gate] obtain pe where
    fr: "connectedDevice s1 = connectedDevice s" "isScanning s1 = isScanning s"
        "isConnecting s1 = isConnecting s" "isPairing s1 = isPairing s"
        "messages s1 = messages s" "mp4Device s1 = mp4Device s"
        "history s1 = history s @ pe"
    and pe: "\<forall>x\<in>set pe. isPermissionRequest x"
    by blast
  have rs: "res = fst (findAndConnectMP4 P r s)" "s' = snd (findAndConnectMP4 P r s)"
    using run by simp_all
  note defs = findAndConnectMP4_def findAndConnectMP4_try_def Let_def addMessage_def
  show thesis
  proof (cases g)
    case False
    have refused: "\<not> permissionsGranted r" "\<not> fst (requestBluetoothPermissions P s)"
      using gate False by (simp_all split: if_splits)
    show thesis
      by (rule denied [OF pe]) (use gate False refused in \<open>simp_all add: rs defs fr\<close>)
  next
    case True
    note g = this
    show thesis
    proof (cases "RN_getBondedDevices P (history s1)")
      case (Inl err)
      show thesis
        by (rule listing_rejected [OF pe, of err])
          (use gate g Inl in \<open>simp_all add: rs defs fr\<close>)
    next
      case (Inr paired)
      note listing = this
      show thesis
      proof (cases "find isMP4 paired")
        case (Some mp4)
        define s5 where "s5 = s1\<lparr>isScanning := True, error := None,
          history := history s1 @ [GetBondedDevices (Inr paired)], mp4Device := Some mp4\<rparr>"
        obtain cres s6 where sub: "connectToDevice P r mp4 s5 = (cres, s6)"
          by fastforce
        have sub': "connectToDevice P r mp4 (s1\<lparr>isScanning := True, error := None,
          history := history s1 @ [GetBondedDevices (Inr paired)], mp4Device := Some mp4\<rparr>)
            = (cres, s6)"
          using sub by (simp add: s5_def)
        show thesis
        proof (rule bonded [OF pe Some, of s5 cres s6])
          show "connectToDevice P r mp4 s5 = (cres, s6)" by (rule sub)
        qed (use gate g listing Some sub' in
            \<open>simp_all add: rs defs s5_def fr split: sum.splits\<close>)
      next
        case None
        note nomatch = this
        define s4 where "s4 = s1\<lparr>isScanning := True, error := None,
          history := history s1 @ [GetBondedDevices (Inr paired)]\<rparr>"
        show thesis
        proof (cases "RN_requestBluetoothEnabled P (history s4)")
          case (Inl err)
          show thesis
            by (rule enable_rejected [OF pe nomatch, of err])
              (use gate g listing nomatch Inl in \<open>simp_all add: rs defs s4_def fr\<close>)
        next
          case (Inr enabled)
          note enabling = this
          show thesis
          proof (cases enabled)
            case False
            show thesis
              by (rule disabled [OF pe nomatch])
                (use gate g listing nomatch enabling False in
                  \<open>simp_all add: rs defs s4_def fr\<close>)
          next
            case True
            note on = this
            define s5 where "s5 = s4\<lparr>history := history s4 @ [RequestBluetoothEnabled (Inr True)]\<rparr>"
            define s6 where "s6 = addMessage P system ''Buscando dispositivo MP4...'' s5"
            show thesis
            proof (cases "RN_startDiscovery P (history s6)")
              case (Inl err)
              show thesis
                by (rule discovery_rejected [OF pe nomatch, of err "Date_now P (history s5)"])
                  (use gate g listing nomatch enabling on Inl in
                    \<open>simp_all add: rs defs s4_def s5_def s6_def fr\<close>)
            next
              case (Inr discovered)
              note discovery = this
              show thesis
              proof (cases "find isMP4 discovered")
                case None
                show thesis
                  by (rule not_found [OF pe nomatch None, of "Date_now P (history s5)"])
                    (use gate g listing nomatch enabling on discovery None in
                      \<open>simp_all add: rs defs s4_def s5_def s6_def fr\<close>)
              next
                case (Some mp4)
                note found = this
                define s8 where "s8 = s6\<lparr>history := history s6 @ [StartDiscovery (Inr discovered)],
                  mp4Device := Some mp4\<rparr>"
                define s9 where "s9 = addMessage P system
                  (''Emparejando con '' @ device_name mp4 @ ''...'') s8"
                obtain pres s10 where pairing: "pairDevice P r mp4 s9 = (pres, s10)"
                  by fastforce
                note states = s4_def s5_def s6_def s8_def s9_def
                show thesis
                proof (cases pres)
                  case (Inl err)
                  show thesis
                  proof (rule pairing_failed [OF pe nomatch found, of s9 "Date_now P (history s5)"
                        "Date_now P (history s8)" err s10])
                    show "pairDevice P r mp4 s9 = (Inl err, s10)"
                      using pairing Inl by simp
                  qed (use gate g listing nomatch enabling on discovery found pairing Inl in
                      \<open>simp_all add: rs defs states fr\<close>)
                next
                  case (Inr p)
                  obtain cres s11 where connecting: "connectToDevice P r mp4 s10 = (cres, s11)"
                    by fastforce
                  show thesis
                  proof (rule paired [OF pe nomatch found, of s9 "Date_now P (history s5)"
                        "Date_now P (history s8)" p s10 cres s11])
                    show "pairDevice P r mp4 s9 = (Inr p, s10)"
                      using pairing Inr by simp
                    show "connectToDevice P r mp4 s10 = (cres, s11)"
                      by (rule connecting)
                  qed (use gate g listing nomatch enabling on discovery found pairing Inr
                        connecting in
                      \<open>simp_all add: rs defs states fr split: sum.splits\<close>)
                qed
              qed
            qed
          qed
        qed
      qed
    qed
  qed
qed

text \<open>
  Every run of \<^verbatim>\<open>findAndConnectMP4\<close> takes one of eighteen paths.  Each path
  fixes the result, the events of the run (permission requests apart), the entries
  appended to the log and what became of the session, the target device and the
  connecting and pairing flags.  Each answer recorded in an event is the answer the
  platform gave to that call, and a path that stops at a permission gate is taken only
  when the render does not hold the permissions and the request for them was refused.
\<close>

lemma findAndConnectMP4_paths [consumes 1, case_names no_permission listing_failed
    bonded_no_permission bonded_query_failed bonded_already_connected bonded_connect_failed
    bonded_connected enabling_failed bluetooth_off discovery_failed nothing_found
    pairing_no_permission pairing_rejected found_no_permission found_query_failed
    found_already_connected found_connect_failed found_connected]:
  assumes "findAndConnectMP4 P r s = (res, s')"
  obtains
    (no_permission)
      "res = Inl (Error ''Se requieren permisos de Bluetooth para buscar dispositivos'')"
      "nonPermission (emitted s s') = []"
      "messages s' = messages s"
      "connectedDevice s' = connectedDevice s"
      "mp4Device s' = mp4Device s"
      "isConnecting s' = isConnecting s"
      "isPairing s' = isPairing s"
      "\<not> permissionsGranted r"
      "\<exists>s0. \<not> fst (requestBluetoothPermissions P s0)"
  | (listing_failed) err where
      "res = Inl err"
      "nonPermission (emitted s s') =
         [GetBondedDevices (Inl err)]"
      "messages s' = messages s"
      "connectedDevice s' = connectedDevice s"
      "mp4Device s' = mp4Device s"
      "isConnecting s' = isConnecting s"
      "isPairing s' = isPairing s"
      "\<exists>h. RN_getBondedDevices P h = Inl err"
  | (bonded_no_permission) paired mp4 where
      "find isMP4 paired = Some mp4"
      "res = Inl (Error ''Se requieren permisos de Bluetooth para conectar'')"
      "nonPermission (emitted s s') =
         [GetBondedDevices (Inr paired)]"
      "messages s' = messages s"
      "connectedDevice s' = connectedDevice s"
      "mp4Device s' = Some mp4"
      "isConnecting s' = False"
      "isPairing s' = isPairing s"
      "\<exists>h. RN_getBondedDevices P h = Inr paired"
      "\<not> permissionsGranted r"
      "\<exists>s0. \<not> fst (requestBluetoothPermissions P s0)"
  | (bonded_query_failed) paired mp4 err where
      "find isMP4 paired = Some mp4"
      "res = Inl err"
      "nonPermission (emitted s s') =
         [GetBondedDevices (Inr paired),
          IsConnected mp4 (Inl err)]"
      "messages s' = messages s"
      "connectedDevice s' = connectedDevice s"
      "mp4Device s' = Some mp4"
      "isConnecting s' = False"
      "isPairing s' = isPairing s"
      "\<exists>h. RN_getBondedDevices P h = Inr paired"
      "\<exists>h. device_isConnected P mp4 h = Inl err"
  | (bonded_already_connected) paired mp4 ts where
      "find isMP4 paired = Some mp4"
      "res = Inr mp4"
      "nonPermission (emitted s s') =
         [GetBondedDevices (Inr paired),
          IsConnected mp4 (Inr True),
          Appended system (''Ya conectado a '' @ device_name mp4)]"
      "messages s' = messages s @
         [\<lparr>mtype = system, content = ''Ya conectado a '' @ device_name mp4, timestamp = ts\<rparr>]"
      "connectedDevice s' = Some mp4"
      "mp4Device s' = Some mp4"
      "isConnecting s' = False"
      "isPairing s' = isPairing s"
      "\<exists>h. RN_getBondedDevices P h = Inr paired"
      "\<exists>h. device_isConnected P mp4 h = Inr True"
  | (bonded_connect_failed) paired mp4 err where
      "find isMP4 paired = Some mp4"
      "res = Inl err"
      "nonPermission (emitted s s') =
         [GetBondedDevices (Inr paired),
          IsConnected mp4 (Inr False),
          ConnectToDevice (device_id mp4) (Inl err)]"
      "messages s' = messages s"
      "connectedDevice s' = connectedDevice s"
      "mp4Device s' = Some mp4"
      "isConnecting s' = False"
      "isPairing s' = isPairing s"
      "\<exists>h. RN_getBondedDevices P h = Inr paired"
      "\<exists>h. device_isConnected P mp4 h = Inr False"
      "\<exists>h. RN_connectToDevice P (device_id mp4) h = Inl err"
  | (bonded_connected) paired mp4 c ts where
      "find isMP4 paired = Some mp4"
      "res = Inr mp4"
      "nonPermission (emitted s s') =
         [GetBondedDevices (Inr paired),
          IsConnected mp4 (Inr False),
          ConnectToDevice (device_id mp4) (Inr c),
          Appended system (''Conectado a '' @ device_name mp4)]"
      "messages s' = messages s @
         [\<lparr>mtype = system, content = ''Conectado a '' @ device_name mp4, timestamp = ts\<rparr>]"
      "connectedDevice s' = Some c"
      "mp4Device s' = Some mp4"
      "isConnecting s' = False"
      "isPairing s' = isPairing s"
      "\<exists>h. RN_getBondedDevices P h = Inr paired"
      "\<exists>h. device_isConnected P mp4 h = Inr False"
      "\<exists>h. RN_connectToDevice P (device_id mp4) h = Inr c"
  | (enabling_failed) paired err where
      "find isMP4 paired = None"
      "res = Inl err"
      "nonPermission (emitted s s') =
         [GetBondedDevices (Inr paired),
          RequestBluetoothEnabled (Inl err)]"
      "messages s' = messages s"
      "connectedDevice s' = connectedDevice s"
      "mp4Device s' = mp4Device s"
      "isConnecting s' = isConnecting s"
      "isPairing s' = isPairing s"
      "\<exists>h. RN_getBondedDevices P h = Inr paired"
      "\<exists>h. RN_requestBluetoothEnabled P h = Inl err"
  | (bluetooth_off) paired where
      "find isMP4 paired = None"
      "res = Inl (Error (''Bluetooth no est'' @ [CHR 0xE1] @ '' habilitado''))"
      "nonPermission (emitted s s') =
         [GetBondedDevices (Inr paired),
          RequestBluetoothEnabled (Inr False)]"
      "messages s' = messages s"
      "connectedDevice s' = connectedDevice s"
      "mp4Device s' = mp4Device s"
      "isConnecting s' = isConnecting s"
      "isPairing s' = isPairing s"
      "\<exists>h. RN_getBondedDevices P h = Inr paired"
      "\<exists>h. RN_requestBluetoothEnabled P h = Inr False"
  | (discovery_failed) paired err ts where
      "find isMP4 paired = None"
      "res = Inl err"
      "nonPermission (emitted s s') =
         [GetBondedDevices (Inr paired),
          RequestBluetoothEnabled (Inr True),
          Appended system ''Buscando dispositivo MP4...'',
          StartDiscovery (Inl err)]"
      "messages s' = messages s @
         [\<lparr>mtype = system, content = ''Buscando dispositivo MP4...'', timestamp = ts\<rparr>]"
      "connectedDevice s' = connectedDevice s"
      "mp4Device s' = mp4Device s"
      "isConnecting s' = isConnecting s"
      "isPairing s' = isPairing s"
      "\<exists>h. RN_getBondedDevices P h = Inr paired"
      "\<exists>h. RN_requestBluetoothEnabled P h = Inr True"
      "\<exists>h. RN_startDiscovery P h = Inl err"
  | (nothing_found) paired discovered ts where
      "find isMP4 paired = None"
      "find isMP4 discovered = None"
      "res = Inl (Error (''No se encontr'' @ [CHR 0xF3] @ '' ning'' @ [CHR 0xFA] @ ''n dispositivo MP4''))"
      "nonPermission (emitted s s') =
         [GetBondedDevices (Inr paired),
          RequestBluetoothEnabled (Inr True),
          Appended system ''Buscando dispositivo MP4...'',
          StartDiscovery (Inr discovered)]"
      "messages s' = messages s @
         [\<lparr>mtype = system, content = ''Buscando dispositivo MP4...'', timestamp = ts\<rparr>]"
      "connectedDevice s' = connectedDevice s"
      "mp4Device s' = mp4Device s"
      "isConnecting s' = isConnecting s"
      "isPairing s' = isPairing s"
      "\<exists>h. RN_getBondedDevices P h = Inr paired"
      "\<exists>h. RN_requestBluetoothEnabled P h = Inr True"
      "\<exists>h. RN_startDiscovery P h = Inr discovered"
  | (pairing_no_permission) paired discovered mp4 ts ts' where
      "find isMP4 paired = None"
      "find isMP4 discovered = Some mp4"
      "res = Inl (Error ''Se requieren permisos de Bluetooth para emparejar'')"
      "nonPermission (emitted s s') =
         [GetBondedDevices (Inr paired),
          RequestBluetoothEnabled (Inr True),
          Appended system ''Buscando dispositivo MP4...'',
          StartDiscovery (Inr discovered),
          Appended system (''Emparejando con '' @ device_name mp4 @ ''...'')]"
      "messages s' = messages s @
         [\<lparr>mtype = system, content = ''Buscando dispositivo MP4...'', timestamp = ts\<rparr>,
          \<lparr>mtype = system, content = ''Emparejando con '' @ device_name mp4 @ ''...'', timestamp = ts'\<rparr>]"
      "connectedDevice s' = connectedDevice s"
      "mp4Device s' = Some mp4"
      "isConnecting s' = isConnecting s"
      "isPairing s' = False"
      "\<exists>h. RN_getBondedDevices P h = Inr paired"
      "\<exists>h. RN_requestBluetoothEnabled P h = Inr True"
      "\<exists>h. RN_startDiscovery P h = Inr discovered"
      "\<not> permissionsGranted r"
      "\<exists>s0. \<not> fst (requestBluetoothPermissions P s0)"
  | (pairing_rejected) paired discovered mp4 err ts ts' where
      "find isMP4 paired = None"
      "find isMP4 discovered = Some mp4"
      "res = Inl err"
      "nonPermission (emitted s s') =
         [GetBondedDevices (Inr paired),
          RequestBluetoothEnabled (Inr True),
          Appended system ''Buscando dispositivo MP4...'',
          StartDiscovery (Inr discovered),
          Appended system (''Emparejando con '' @ device_name mp4 @ ''...''),
          PairDevice (device_id mp4) (Inl err)]"
      "messages s' = messages s @
         [\<lparr>mtype = system, content = ''Buscando dispositivo MP4...'', timestamp = ts\<rparr>,
          \<lparr>mtype = system, content = ''Emparejando con '' @ device_name mp4 @ ''...'', timestamp = ts'\<rparr>]"
      "connectedDevice s' = connectedDevice s"
      "mp4Device s' = Some mp4"
      "isConnecting s' = isConnecting s"
      "isPairing s' = False"
      "\<exists>h. RN_getBondedDevices P h = Inr paired"
      "\<exists>h. RN_requestBluetoothEnabled P h = Inr True"
      "\<exists>h. RN_startDiscovery P h = Inr discovered"
      "\<exists>h. RN_pairDevice P (device_id mp4) h = Inl err"
  | (found_no_permission) paired discovered mp4 p ts ts' ts'' where
      "find isMP4 paired = None"
      "find isMP4 discovered = Some mp4"
      "res = Inl (Error ''Se requieren permisos de Bluetooth para conectar'')"
      "nonPermission (emitted s s') =
         [GetBondedDevices (Inr paired),
          RequestBluetoothEnabled (Inr True),
          Appended system ''Buscando dispositivo MP4...'',
          StartDiscovery (Inr discovered),
          Appended system (''Emparejando con '' @ device_name mp4 @ ''...''),
          PairDevice (device_id mp4) (Inr p),
          Appended system (''Emparejado con '' @ device_name mp4)]"
      "messages s' = messages s @
         [\<lparr>mtype = system, content = ''Buscando dispositivo MP4...'', timestamp = ts\<rparr>,
          \<lparr>mtype = system, content = ''Emparejando con '' @ device_name mp4 @ ''...'', timestamp = ts'\<rparr>,
          \<lparr>mtype = system, content = ''Emparejado con '' @ device_name mp4, timestamp = ts''\<rparr>]"
      "connectedDevice s' = connectedDevice s"
      "mp4Device s' = Some mp4"
      "isConnecting s' = False"
      "isPairing s' = False"
      "\<exists>h. RN_getBondedDevices P h = Inr paired"
      "\<exists>h. RN_requestBluetoothEnabled P h = Inr True"
      "\<exists>h. RN_startDiscovery P h = Inr discovered"
      "\<exists>h. RN_pairDevice P (device_id mp4) h = Inr p"
      "\<not> permissionsGranted r"
      "\<exists>s0. \<not> fst (requestBluetoothPermissions P s0)"
  | (found_query_failed) paired discovered mp4 err p ts ts' ts'' where
      "find isMP4 paired = None"
      "find isMP4 discovered = Some mp4"
      "res = Inl err"
      "nonPermission (emitted s s') =
         [GetBondedDevices (Inr paired),
          RequestBluetoothEnabled (Inr True),
          Appended system ''Buscando dispositivo MP4...'',
          StartDiscovery (Inr discovered),
          Appended system (''Emparejando con '' @ device_name mp4 @ ''...''),
          PairDevice (device_id mp4) (Inr p),
          Appended system (''Emparejado con '' @ device_name mp4),
          IsConnected mp4 (Inl err)]"
      "messages s' = messages s @
         [\<lparr>mtype = system, content = ''Buscando dispositivo MP4...'', timestamp = ts\<rparr>,
          \<lparr>mtype = system, content = ''Emparejando con '' @ device_name mp4 @ ''...'', timestamp = ts'\<rparr>,
          \<lparr>mtype = system, content = ''Emparejado con '' @ device_name mp4, timestamp = ts''\<rparr>]"
      "connectedDevice s' = connectedDevice s"
      "mp4Device s' = Some mp4"
      "isConnecting s' = False"
      "isPairing s' = False"
      "\<exists>h. RN_getBondedDevices P h = Inr paired"
      "\<exists>h. RN_requestBluetoothEnabled P h = Inr True"
      "\<exists>h. RN_startDiscovery P h = Inr discovered"
      "\<exists>h. RN_pairDevice P (device_id mp4) h = Inr p"
      "\<exists>h. device_isConnected P mp4 h = Inl err"
  | (found_already_connected) paired discovered mp4 p ts ts' ts'' ts3 where
      "find isMP4 paired = None"
      "find isMP4 discovered = Some mp4"
      "res = Inr mp4"
      "nonPermission (emitted s s') =
         [GetBondedDevices (Inr paired),
          RequestBluetoothEnabled (Inr True),
          Appended system ''Buscando dispositivo MP4...'',
          StartDiscovery (Inr discovered),
          Appended system (''Emparejando con '' @ device_name mp4 @ ''...''),
          PairDevice (device_id mp4) (Inr p),
          Appended system (''Emparejado con '' @ device_name mp4),
          IsConnected mp4 (Inr True),
          Appended system (''Ya conectado a '' @ device_name mp4)]"
      "messages s' = messages s @
         [\<lparr>mtype = system, content = ''Buscando dispositivo MP4...'', timestamp = ts\<rparr>,
          \<lparr>mtype = system, content = ''Emparejando con '' @ device_name mp4 @ ''...'', timestamp = ts'\<rparr>,
          \<lparr>mtype = system, content = ''Emparejado con '' @ device_name mp4, timestamp = ts''\<rparr>,
          \<lparr>mtype = system, content = ''Ya conectado a '' @ device_name mp4, timestamp = ts3\<rparr>]"
      "connectedDevice s' = Some mp4"
      "mp4Device s' = Some mp4"
      "isConnecting s' = False"
      "isPairing s' = False"
      "\<exists>h. RN_getBondedDevices P h = Inr paired"
      "\<exists>h. RN_requestBluetoothEnabled P h = Inr True"
      "\<exists>h. RN_startDiscovery P h = Inr discovered"
      "\<exists>h. RN_pairDevice P (device_id mp4) h = Inr p"
      "\<exists>h. device_isConnected P mp4 h = Inr True"
  | (found_connect_failed) paired discovered mp4 err p ts ts' ts'' where
      "find isMP4 paired = None"
      "find isMP4 discovered = Some mp4"
      "res = Inl err"
      "nonPermission (emitted s s') =
         [GetBondedDevices (Inr paired),
          RequestBluetoothEnabled (Inr True),
          Appended system ''Buscando dispositivo MP4...'',
          StartDiscovery (Inr discovered),
          Appended system (''Emparejando con '' @ device_name mp4 @ ''...''),
          PairDevice (device_id mp4) (Inr p),
          Appended system (''Emparejado con '' @ device_name mp4),
          IsConnected mp4 (Inr False),
          ConnectToDevice (device_id mp4) (Inl err)]"
      "messages s' = messages s @
         [\<lparr>mtype = system, content = ''Buscando dispositivo MP4...'', timestamp = ts\<rparr>,
          \<lparr>mtype = system, content = ''Emparejando con '' @ device_name mp4 @ ''...'', timestamp = ts'\<rparr>,
          \<lparr>mtype = system, content = ''Emparejado con '' @ device_name mp4, timestamp = ts''\<rparr>]"
      "connectedDevice s' = connectedDevice s"
      "mp4Device s' = Some mp4"
      "isConnecting s' = False"
      "isPairing s' = False"
      "\<exists>h. RN_getBondedDevices P h = Inr paired"
      "\<exists>h. RN_requestBluetoothEnabled P h = Inr True"
      "\<exists>h. RN_startDiscovery P h = Inr discovered"
      "\<exists>h. RN_pairDevice P (device_id mp4) h = Inr p"
      "\<exists>h. device_isConnected P mp4 h = Inr False"
      "\<exists>h. RN_connectToDevice P (device_id mp4) h = Inl err"
  | (found_connected) paired discovered mp4 p c ts ts' ts'' ts3 where
      "find isMP4 paired = None"
      "find isMP4 discovered = Some mp4"
      "res = Inr mp4"
      "nonPermission (emitted s s') =
         [GetBondedDevices (Inr paired),
          RequestBluetoothEnabled (Inr True),
          Appended system ''Buscando dispositivo MP4...'',
          StartDiscovery (Inr discovered),
          Appended system (''Emparejando con '' @ device_name mp4 @ ''...''),
          PairDevice (device_id mp4) (Inr p),
          Appended system (''Emparejado con '' @ device_name mp4),
          IsConnected mp4 (Inr False),
          ConnectToDevice (device_id mp4) (Inr c),
          Appended system (''Conectado a '' @ device_name mp4)]"
      "messages s' = messages s @
         [\<lparr>mtype = system, content = ''Buscando dispositivo MP4...'', timestamp = ts\<rparr>,
          \<lparr>mtype = system, content = ''Emparejando con '' @ device_name mp4 @ ''...'', timestamp = ts'\<rparr>,
          \<lparr>mtype = system, content = ''Emparejado con '' @ device_name mp4, timestamp = ts''\<rparr>,
          \<lparr>mtype = system, content = ''Conectado a '' @ device_name mp4, timestamp = ts3\<rparr>]"
      "connectedDevice s' = Some c"
      "mp4Device s' = Some mp4"
      "isConnecting s' = False"
      "isPairing s' = False"
      "\<exists>h. RN_getBondedDevices P h = Inr paired"
      "\<exists>h. RN_requestBluetoothEnabled P h = Inr True"
      "\<exists>h. RN_startDiscovery P h = Inr discovered"
      "\<exists>h. RN_pairDevice P (device_id mp4) h = Inr p"
      "\<exists>h. device_isConnected P mp4 h = Inr False"
      "\<exists>h. RN_connectToDevice P (device_id mp4) h = Inr c"
proof -
  note quiet = nonPermission_quiet
  from assms show thesis
  proof (cases rule: findAndConnectMP4_cases)
    case (denied pe)
    then show thesis
      by (intro no_permission) (simp_all add: quiet, blast+)
  next
    case (listing_rejected pe err)
    then show thesis
      by (intro listing_failed [of err]) (simp_all add: quiet, blast+)
  next
    case (bonded pe paired mp4 s5 cres s6)
    note outer = bonded
    note fr = connectToDevice_frame [OF outer(8)]
    from outer(8) show thesis
    proof (cases rule: connectToDevice_cases)
      case (denied pe2)
      with outer fr show thesis
        by (intro bonded_no_permission [of paired mp4]) (simp_all add: quiet, blast+)
    next
      case (query_rejected pe2 err)
      with outer fr show thesis
        by (intro bonded_query_failed [of paired mp4 err]) (simp_all add: quiet, blast+)
    next
      case (already pe2 ts)
      with outer fr show thesis
        by (intro bonded_already_connected [of paired mp4 ts]) (simp_all add: quiet, blast+)
    next
      case (rejected pe2 err)
      with outer fr show thesis
        by (intro bonded_connect_failed [of paired mp4 err]) (simp_all add: quiet, blast+)
    next
      case (connected pe2 c ts)
      with outer fr show thesis
        by (intro bonded_connected [of paired mp4 c ts]) (simp_all add: quiet, blast+)
    qed
  next
    case (enable_rejected pe paired err)
    then show thesis
      by (intro enabling_failed [of paired err]) (simp_all add: quiet, blast+)
  next
    case (disabled pe paired)
    then show thesis
      by (intro bluetooth_off [of paired]) (simp_all add: quiet, blast+)
  next
    case (discovery_rejected pe paired err ts)
    then show thesis
      by (intro discovery_failed [of paired err ts]) (simp_all add: quiet, blast+)
  next
    case (not_found pe paired discovered ts)
    then show thesis
      by (intro nothing_found [of paired discovered ts]) (simp_all add: quiet, blast+)
  next
    case (pairing_failed pe paired discovered mp4 ts ts' s9 err s10)
    note outer = pairing_failed
    note fr = pairDevice_frame [OF outer(9)]
    from outer(9) show thesis
    proof (cases rule: pairDevice_cases)
      case (denied pe2)
      with outer fr show thesis
        by (intro pairing_no_permission [of paired discovered mp4 ts "ts'"]) (simp_all add: quiet, blast+)
    next
      case (rejected pe2 err2)
      with outer fr show thesis
        by (intro pairing_rejected [of paired discovered mp4 err ts "ts'"]) (simp_all add: quiet, blast+)
    next
      case (paired pe2 p ts2)
      with outer show thesis by simp
    qed
  next
    case (paired pe paired discovered mp4 ts ts' s9 p s10 cres s11)
    note outer = paired
    note frp = pairDevice_frame [OF outer(9)]
    note frc = connectToDevice_frame [OF outer(10)]
    from outer(9) show thesis
    proof (cases rule: pairDevice_cases)
      case (denied pe2)
      then show thesis by simp
    next
      case (rejected pe2 err)
      then show thesis by simp
    next
      case (paired pe2 p2 ts'')
      note inner = paired
      from outer(10) show thesis
      proof (cases rule: connectToDevice_cases)
        case (denied pe3)
        with outer inner frp frc show thesis
          by (intro found_no_permission [of paired discovered mp4 p ts "ts'" "ts''"])
            (simp_all add: quiet, blast+)
      next
        case (query_rejected pe3 err)
        with outer inner frp frc show thesis
          by (intro found_query_failed [of paired discovered mp4 err p ts "ts'" "ts''"])
            (simp_all add: quiet, blast+)
      next
        case (already pe3 ts3)
        with outer inner frp frc show thesis
          by (intro found_already_connected [of paired discovered mp4 p ts "ts'" "ts''" ts3])
            (simp_all add: quiet, blast+)
      next
        case (rejected pe3 err)
        with outer inner frp frc show thesis
          by (intro found_connect_failed [of paired discovered mp4 err p ts "ts'" "ts''"])
            (simp_all add: quiet, blast+)
      next
        case (connected pe3 c ts3)
        with outer inner frp frc show thesis
          by (intro found_connected [of paired discovered mp4 p c ts "ts'" "ts''" ts3])
            (simp_all add: quiet, blast+)
      qed
    qed
  qed
qed

lemma isMP4_iff: "isMP4 d \<longleftrightarrow> prefix ''MP4'' (device_name d)"
  by (auto simp: isMP4_def)

lemma find_isMP4_None:
  "find isMP4 ds = None \<longleftrightarrow> (\<nexists>d. d \<in> set ds \<and> prefix ''MP4'' (device_name d))"
  by (auto simp: find_None_iff isMP4_iff)


lemma findAndConnectMP4_scanning:
  "isScanning (snd (findAndConnectMP4 P r s)) = False"
  by (simp add: findAndConnectMP4_def split: prod.splits sum.splits)


section \<open>Runs determined by the answers of the platform\<close>










lemma run_not_found:
  assumes run: "findAndConnectMP4 P r s = (res, s')"
    and perm: "permissionsGranted r \<or> (\<forall>s0. fst (requestBluetoothPermissions P s0))"
    and "\<forall>h. RN_getBondedDevices P h = Inr paired"
    and "find isMP4 paired = None"
    and "\<forall>h. RN_requestBluetoothEnabled P h = Inr True"
    and "\<forall>h. RN_startDiscovery P h = Inr discovered"
    and "find isMP4 discovered = None"
  shows "res = Inl (Error (''No se encontr'' @ [CHR 0xF3] @ '' ning'' @ [CHR 0xFA]
               @ ''n dispositivo MP4''))
     \<and> nonPermission (emitted s s') =
           [GetBondedDevices (Inr paired),
            RequestBluetoothEnabled (Inr True),
            Appended system ''Buscando dispositivo MP4...'',
            StartDiscovery (Inr discovered)]
     \<and> (\<exists>ts. messages s' = messages s @
           [\<lparr>mtype = system, content = ''Buscando dispositivo MP4...'', timestamp = ts\<rparr>])
     \<and> connectedDevice s' = connectedDevice s
     \<and> mp4Device s' = mp4Device s
     \<and> isConnecting s' = isConnecting s
     \<and> isPairing s' = isPairing s"
  using run by (cases rule: findAndConnectMP4_paths) (use assms(2-) in simp_all)









text \<open>Concrete runs on the mock platform are computed by unfolding the operations.\<close>

lemmas run_defs =
  findAndConnectMP4_def findAndConnectMP4_try_def connectToDevice_def connectToDevice_try_def
  pairDevice_def pairDevice_try_def requestBluetoothPermissions_def addMessage_def Let_def
  isMP4_def emitted_def mock_def grantedState_def initialState_def player1_def mp4x_def

lemma nothingToFind_run:
  "fst (findAndConnectMP4 nothingToFind grantedState grantedState)
     = Inl (Error (''No se encontr'' @ [CHR 0xF3] @ '' ning'' @ [CHR 0xFA] @ ''n dispositivo MP4''))"
  "emitted grantedState (snd (findAndConnectMP4 nothingToFind grantedState grantedState))
     = [GetBondedDevices (Inr [speaker]), RequestBluetoothEnabled (Inr True),
        Appended system ''Buscando dispositivo MP4...'', StartDiscovery (Inr [speaker])]"
  "messages (snd (findAndConnectMP4 nothingToFind grantedState grantedState))
     = [\<lparr>mtype = system, content = ''Buscando dispositivo MP4...'',
         timestamp = ''2024-01-01T00:00:00.000Z''\<rparr>]"
  by (simp_all add: run_defs nothingToFind_def speaker_def)



text \<open>
  C3 (as amended).  \<^verbatim>\<open>findAndConnectMP4\<close> ends with the scanning flag false on every
  path, resolved or rejected, so the status shown is never left at
  \<^verbatim>\<open>Buscando MP4...\<close>.  Take a platform that lists bonded devices none of which has a
  name starting with MP4, enables the adapter, and discovers devices none of which has
  such a name, with the permissions held by the render or granted whenever asked.  The run
  lists, enables, appends the searching entry and discovers, in that order, and is
  rejected with the error \<^verbatim>\<open>No se encontro ningun dispositivo MP4\<close> (with its
  accents).  It leaves the session and the connecting and pairing flags as they were, so
  the status at the end is the status of the state it started from with the scanning flag
  false: \<^verbatim>\<open>Desconectado\<close> when it started with no session and no connect or pairing
  under way, \<^verbatim>\<open>Conectado\<close> when it started with a session.  The same rejection and
  the same status hold in every run, on any platform, whose listing and discovery events
  both carry lists without such a name.
\<close>

theorem target_not_found_leaves_disconnected:
  assumes run: "findAndConnectMP4 P r s = (res, s')"
  shows "isScanning s' = False
     \<and> getStatusText s' \<noteq> ''Buscando MP4...''
     \<and> (\<forall>paired discovered.
           (permissionsGranted r \<or> (\<forall>s0. fst (requestBluetoothPermissions P s0)))
         \<and> (\<forall>h. RN_getBondedDevices P h = Inr paired)
         \<and> (\<nexists>d. d \<in> set paired \<and> prefix ''MP4'' (device_name d))
         \<and> (\<forall>h. RN_requestBluetoothEnabled P h = Inr True)
         \<and> (\<forall>h. RN_startDiscovery P h = Inr discovered)
         \<and> (\<nexists>d. d \<in> set discovered \<and> prefix ''MP4'' (device_name d))
         \<longrightarrow> res = Inl (Error (''No se encontr'' @ [CHR 0xF3] @ '' ning'' @ [CHR 0xFA]
                          @ ''n dispositivo MP4''))
           \<and> nonPermission (emitted s s') =
               [GetBondedDevices (Inr paired), RequestBluetoothEnabled (Inr True),
                Appended system ''Buscando dispositivo MP4...'',
                StartDiscovery (Inr discovered)]
           \<and> connectedDevice s' = connectedDevice s
           \<and> isConnecting s' = isConnecting s \<and> isPairing s' = isPairing s
           \<and> getStatusText s' = getStatusText (s\<lparr>isScanning := False\<rparr>)
           \<and> (\<not> isConnected s \<and> \<not> isConnecting s \<and> \<not> isPairing s
                \<longrightarrow> getStatusText s' = ''Desconectado'')
           \<and> (isConnected s \<longrightarrow> getStatusText s' = ''Conectado''))
     \<and> (\<forall>paired discovered.
           GetBondedDevices (Inr paired) \<in> set (emitted s s')
         \<and> (\<nexists>d. d \<in> set paired \<and> prefix ''MP4'' (device_name d))
         \<and> StartDiscovery (Inr discovered) \<in> set (emitted s s')
         \<and> (\<nexists>d. d \<in> set discovered \<and> prefix ''MP4'' (device_name d))
         \<longrightarrow> res = Inl (Error (''No se encontr'' @ [CHR 0xF3] @ '' ning'' @ [CHR 0xFA]
                          @ ''n dispositivo MP4''))
           \<and> getStatusText s' = getStatusText (s\<lparr>isScanning := False\<rparr>))"
proof -
  have off: "isScanning s' = False"
    using findAndConnectMP4_scanning [of P r s] run by simp
  have busy: "getStatusText s' \<noteq> ''Buscando MP4...''"
    using off by (simp add: getStatusText_def)
  have answered: "\<forall>paired discovered.
           (permissionsGranted r \<or> (\<forall>s0. fst (requestBluetoothPermissions P s0)))
         \<and> (\<forall>h. RN_getBondedDevices P h = Inr paired)
         \<and> (\<nexists>d. d \<in> set paired \<and> prefix ''MP4'' (device_name d))
         \<and> (\<forall>h. RN_requestBluetoothEnabled P h = Inr True)
         \<and> (\<forall>h. RN_startDiscovery P h = Inr discovered)
         \<and> (\<nexists>d. d \<in> set discovered \<and> prefix ''MP4'' (device_name d))
         \<longrightarrow> res = Inl (Error (''No se encontr'' @ [CHR 0xF3] @ '' ning'' @ [CHR 0xFA]
                          @ ''n dispositivo MP4''))
           \<and> nonPermission (emitted s s') =
               [GetBondedDevices (Inr paired), RequestBluetoothEnabled (Inr True),
                Appended system ''Buscando dispositivo MP4...'',
                StartDiscovery (Inr discovered)]
           \<and> connectedDevice s' = connectedDevice s
           \<and> isConnecting s' = isConnecting s \<and> isPairing s' = isPairing s
           \<and> getStatusText s' = getStatusText (s\<lparr>isScanning := False\<rparr>)
           \<and> (\<not> isConnected s \<and> \<not> isConnecting s \<and> \<not> isPairing s
                \<longrightarrow> getStatusText s' = ''Desconectado'')
           \<and> (isConnected s \<longrightarrow> getStatusText s' = ''Conectado'')"
  proof (intro allI impI, elim conjE)
    fix paired discovered
    assume perm: "permissionsGranted r \<or> (\<forall>s0. fst (requestBluetoothPermissions P s0))"
      and listing: "\<forall>h. RN_getBondedDevices P h = Inr paired"
      and nomatch: "\<nexists>d. d \<in> set paired \<and> prefix ''MP4'' (device_name d)"
      and enabling: "\<forall>h. RN_requestBluetoothEnabled P h = Inr True"
      and discovery: "\<forall>h. RN_startDiscovery P h = Inr discovered"
      and absent: "\<nexists>d. d \<in> set discovered \<and> prefix ''MP4'' (device_name d)"
    have nobond: "find isMP4 paired = None"
      using nomatch by (simp add: find_isMP4_None)
    have nofind: "find isMP4 discovered = None"
      using absent by (simp add: find_isMP4_None)
    from run_not_found [OF run perm listing nobond enabling discovery nofind] off
    show "res = Inl (Error (''No se encontr'' @ [CHR 0xF3] @ '' ning'' @ [CHR 0xFA]
                          @ ''n dispositivo MP4''))
           \<and> nonPermission (emitted s s') =
               [GetBondedDevices (Inr paired), RequestBluetoothEnabled (Inr True),
                Appended system ''Buscando dispositivo MP4...'',
                StartDiscovery (Inr discovered)]
           \<and> connectedDevice s' = connectedDevice s
           \<and> isConnecting s' = isConnecting s \<and> isPairing s' = isPairing s
           \<and> getStatusText s' = getStatusText (s\<lparr>isScanning := False\<rparr>)
           \<and> (\<not> isConnected s \<and> \<not> isConnecting s \<and> \<not> isPairing s
                \<longrightarrow> getStatusText s' = ''Desconectado'')
           \<and> (isConnected s \<longrightarrow> getStatusText s' = ''Conectado'')"
      by (simp add: getStatusText_def isConnected_def)
  qed
  have logged: "\<forall>paired discovered.
           GetBondedDevices (Inr paired) \<in> set (emitted s s')
         \<and> (\<nexists>d. d \<in> set paired \<and> prefix ''MP4'' (device_name d))
         \<and> StartDiscovery (Inr discovered) \<in> set (emitted s s')
         \<and> (\<nexists>d. d \<in> set discovered \<and> prefix ''MP4'' (device_name d))
         \<longrightarrow> res = Inl (Error (''No se encontr'' @ [CHR 0xF3] @ '' ning'' @ [CHR 0xFA]
                          @ ''n dispositivo MP4''))
           \<and> getStatusText s' = getStatusText (s\<lparr>isScanning := False\<rparr>)"
  proof (intro allI impI, elim conjE)
    fix paired discovered
    assume listed: "GetBondedDevices (Inr paired) \<in> set (emitted s s')"
      and nomatch: "\<nexists>d. d \<in> set paired \<and> prefix ''MP4'' (device_name d)"
      and scanned: "StartDiscovery (Inr discovered) \<in> set (emitted s s')"
      and absent: "\<nexists>d. d \<in> set discovered \<and> prefix ''MP4'' (device_name d)"
    have nobond: "find isMP4 paired = None"
      using nomatch by (simp add: find_isMP4_None)
    have nofind: "find isMP4 discovered = None"
      using absent by (simp add: find_isMP4_None)
    have listed': "GetBondedDevices (Inr paired) \<in> set (nonPermission (emitted s s'))"
      and scanned': "StartDiscovery (Inr discovered) \<in> set (nonPermission (emitted s s'))"
      using listed scanned by (simp_all add: in_nonPermission [symmetric])
    from run have "res = Inl (Error (''No se encontr'' @ [CHR 0xF3] @ '' ning'' @ [CHR 0xFA]
                          @ ''n dispositivo MP4''))
        \<and> connectedDevice s' = connectedDevice s \<and> isConnecting s' = isConnecting s
        \<and> isPairing s' = isPairing s"
      by (cases rule: findAndConnectMP4_paths) (use listed' scanned' nobond nofind in simp_all)
    with off
    show "res = Inl (Error (''No se encontr'' @ [CHR 0xF3] @ '' ning'' @ [CHR 0xFA]
                          @ ''n dispositivo MP4''))
           \<and> getStatusText s' = getStatusText (s\<lparr>isScanning := False\<rparr>)"
      by (simp add: getStatusText_def isConnected_def)
  qed
  show ?thesis
    by (rule conjI [OF off conjI [OF busy conjI [OF answered logged]]])
qed

theorem target_not_found_leaves_disconnected_witness:
  "permissionsGranted grantedState
   \<and> (\<forall>h. RN_getBondedDevices nothingToFind h = Inr [speaker])
   \<and> (\<nexists>d. d \<in> set [speaker] \<and> prefix ''MP4'' (device_name d))
   \<and> (\<forall>h. RN_requestBluetoothEnabled nothingToFind h = Inr True)
   \<and> (\<forall>h. RN_startDiscovery nothingToFind h = Inr [speaker])
   \<and> \<not> isConnected grantedState \<and> \<not> isConnecting grantedState \<and> \<not> isPairing grantedState
   \<and> fst (findAndConnectMP4 nothingToFind grantedState grantedState)
       = Inl (Error (''No se encontr'' @ [CHR 0xF3] @ '' ning'' @ [CHR 0xFA] @ ''n dispositivo MP4''))
   \<and> nonPermission (emitted grantedState
        (snd (findAndConnectMP4 nothingToFind grantedState grantedState)))
       = [GetBondedDevices (Inr [speaker]), RequestBluetoothEnabled (Inr True),
          Appended system ''Buscando dispositivo MP4...'', StartDiscovery (Inr [speaker])]
   \<and> isScanning (snd (findAndConnectMP4 nothingToFind grantedState grantedState)) = False
   \<and> getStatusText (snd (findAndConnectMP4 nothingToFind grantedState grantedState))
       = ''Desconectado''
   \<and> GetBondedDevices (Inr [speaker])
       \<in> set (emitted grantedState (snd (findAndConnectMP4 nothingToFind grantedState grantedState)))
   \<and> StartDiscovery (Inr [speaker])
       \<in> set (emitted grantedState (snd (findAndConnectMP4 nothingToFind grantedState grantedState)))
   \<and> getStatusText (snd (findAndConnectMP4 nothingToFind grantedState grantedState))
       = getStatusText (grantedState\<lparr>isScanning := False\<rparr>)"
proof -
  let ?run = "findAndConnectMP4 nothingToFind grantedState grantedState"
  have flag: "permissionsGranted grantedState"
    by (simp add: grantedState_def)
  have listing: "\<forall>h. RN_getBondedDevices nothingToFind h = Inr [speaker]"
    and enabling: "\<forall>h. RN_requestBluetoothEnabled nothingToFind h = Inr True"
    and discovery: "\<forall>h. RN_startDiscovery nothingToFind h = Inr [speaker]"
    by (simp_all add: nothingToFind_def mock_def)
  have nomatch: "\<nexists>d. d \<in> set [speaker] \<and> prefix ''MP4'' (device_name d)"
    by (simp add: speaker_def)
  have idle: "\<not> isConnected grantedState \<and> \<not> isConnecting grantedState
      \<and> \<not> isPairing grantedState"
    by (simp add: isConnected_def grantedState_def initialState_def)
  have listed: "GetBondedDevices (Inr [speaker]) \<in> set (emitted grantedState (snd ?run))"
    and scanned: "StartDiscovery (Inr [speaker]) \<in> set (emitted grantedState (snd ?run))"
    by (simp_all add: nothingToFind_run)
  have "?run = (fst ?run, snd ?run)" by simp
  note inst = target_not_found_leaves_disconnected [OF this]
  from inst have off: "isScanning (snd ?run) = False" ..
  from inst flag listing nomatch enabling discovery
  have answered: "fst ?run = Inl (Error (''No se encontr'' @ [CHR 0xF3] @ '' ning'' @ [CHR 0xFA]
                          @ ''n dispositivo MP4''))
      \<and> nonPermission (emitted grantedState (snd ?run))
          = [GetBondedDevices (Inr [speaker]), RequestBluetoothEnabled (Inr True),
             Appended system ''Buscando dispositivo MP4...'', StartDiscovery (Inr [speaker])]
      \<and> (\<not> isConnected grantedState \<and> \<not> isConnecting grantedState
            \<and> \<not> isPairing grantedState
          \<longrightarrow> getStatusText (snd ?run) = ''Desconectado'')"
    by blast
  from inst listed scanned nomatch
  have logged: "getStatusText (snd ?run) = getStatusText (grantedState\<lparr>isScanning := False\<rparr>)"
    by blast
  from flag listing nomatch enabling discovery idle off answered listed scanned logged
  show ?thesis
    by blast
qed

text \<open>
  C3 as stated fails in its last part.  The retry button of \<^verbatim>\<open>App.tsx\<close> is shown
  with or without a session, and the run it starts from the state after a failed send,
  finding no device, is rejected with the scanning flag false and the status
  \<^verbatim>\<open>Conectado\<close>, not \<^verbatim>\<open>Desconectado\<close>.
\<close>

theorem target_not_found_status_counterexample:
  "isConnected retryState \<and> error retryState = Some ''Error al enviar datos''
   \<and> \<not> isScanning retryState \<and> \<not> isConnecting retryState \<and> \<not> isPairing retryState
   \<and> permissionsGranted retryState
   \<and> (\<forall>h. RN_getBondedDevices nothingToFind h = Inr [speaker])
   \<and> (\<forall>h. RN_requestBluetoothEnabled nothingToFind h = Inr True)
   \<and> (\<forall>h. RN_startDiscovery nothingToFind h = Inr [speaker])
   \<and> \<not> prefix ''MP4'' (device_name speaker)
   \<and> fst (findAndConnectMP4 nothingToFind retryState retryState)
       = Inl (Error (''No se encontr'' @ [CHR 0xF3] @ '' ning'' @ [CHR 0xFA] @ ''n dispositivo MP4''))
   \<and> isScanning (snd (findAndConnectMP4 nothingToFind retryState retryState)) = False
   \<and> getStatusText (snd (findAndConnectMP4 nothingToFind retryState retryState))
       = ''Conectado''"
  by (simp add: run_defs nothingToFind_def speaker_def retryState_def sessionState_def
      getStatusText_def isConnected_def)










end
